theory Spec2Isabelle
  imports Main "HOL-Library.Char_ord" "HOL-Library.List_Lexorder" "HOL-Library.AList"
begin

section \<open>Python strings\<close>

text \<open>
  A Python \<open>str\<close> is a sequence of code points. It is modelled as a \<open>string\<close> whose
  characters stand for the code points of the same value, so the development covers the
  strings whose code points are below 256 (Latin-1, which contains every literal of the
  program). Strings are compared as Python compares them: lexicographically by code point
  (\<open>Char_ord\<close> and \<open>List_Lexorder\<close>).
\<close>

definition py_isspace :: "char \<Rightarrow> bool" where
  \<comment> \<open>the code points below 256 for which \<open>str.isspace\<close> holds\<close>
  "py_isspace c = (c \<in> set [CHR 0x09, CHR 0x0A, CHR 0x0B, CHR 0x0C, CHR 0x0D, CHR 0x1C,
     CHR 0x1D, CHR 0x1E, CHR 0x1F, CHR 0x20, CHR 0x85, CHR 0xA0])"

fun split_acc :: "string \<Rightarrow> string \<Rightarrow> string list" where
  "split_acc w [] = (if w = [] then [] else [w])"
| "split_acc w (c # cs) =
     (if py_isspace c then (if w = [] then split_acc [] cs else w # split_acc [] cs)
      else split_acc (w @ [c]) cs)"

definition py_split :: "string \<Rightarrow> string list" where
  \<comment> \<open>\<open>s.split()\<close>: the maximal runs of non-whitespace\<close>
  "py_split s = split_acc [] s"

fun py_join :: "string \<Rightarrow> string list \<Rightarrow> string" where
  "py_join sep [] = []"
| "py_join sep [x] = x"
| "py_join sep (x # y # ys) = x @ sep @ py_join sep (y # ys)"

definition py_replace :: "char \<Rightarrow> char \<Rightarrow> string \<Rightarrow> string" where
  "py_replace old new s = map (\<lambda>c. if c = old then new else c) s"

definition upper_chars :: string where
  "upper_chars = ''ABCDEFGHIJKLMNOPQRSTUVWXYZ'' @
     [CHR 0xC0, CHR 0xC1, CHR 0xC2, CHR 0xC3, CHR 0xC4, CHR 0xC5, CHR 0xC6, CHR 0xC7,
      CHR 0xC8, CHR 0xC9, CHR 0xCA, CHR 0xCB, CHR 0xCC, CHR 0xCD, CHR 0xCE, CHR 0xCF,
      CHR 0xD0, CHR 0xD1, CHR 0xD2, CHR 0xD3, CHR 0xD4, CHR 0xD5, CHR 0xD6,
      CHR 0xD8, CHR 0xD9, CHR 0xDA, CHR 0xDB, CHR 0xDC, CHR 0xDD, CHR 0xDE]"

definition lower_chars :: string where
  "lower_chars = ''abcdefghijklmnopqrstuvwxyz'' @
     [CHR 0xE0, CHR 0xE1, CHR 0xE2, CHR 0xE3, CHR 0xE4, CHR 0xE5, CHR 0xE6, CHR 0xE7,
      CHR 0xE8, CHR 0xE9, CHR 0xEA, CHR 0xEB, CHR 0xEC, CHR 0xED, CHR 0xEE, CHR 0xEF,
      CHR 0xF0, CHR 0xF1, CHR 0xF2, CHR 0xF3, CHR 0xF4, CHR 0xF5, CHR 0xF6,
      CHR 0xF8, CHR 0xF9, CHR 0xFA, CHR 0xFB, CHR 0xFC, CHR 0xFD, CHR 0xFE]"

definition lower_char :: "char \<Rightarrow> char" where
  "lower_char c = (case map_of (zip upper_chars lower_chars) c of Some l \<Rightarrow> l | None \<Rightarrow> c)"

definition py_lower :: "string \<Rightarrow> string" where
  "py_lower s = map lower_char s"

definition py_endswith :: "string \<Rightarrow> string \<Rightarrow> bool" where
  "py_endswith s suf = (length suf \<le> length s \<and> drop (length s - length suf) s = suf)"

definition normalize_label :: "string \<Rightarrow> string" where
  "normalize_label s =
     (if s = [] then []
      else py_join '' '' (py_split (py_replace (CHR 0x0A) CHR '' '' (py_replace (CHR 0x0D) CHR '' '' s))))"

section \<open>Reading the process archive\<close>

text \<open>
  \<open>parse_bizagi_group_by_diagram\<close> opens the outer archive, keeps the entries whose
  lowercased name ends in \<open>.diag\<close> and reads each of them inside a \<open>try\<close> block. What
  the zip and XML libraries answer for an entry is the input of the model:
  \<^item> \<open>ReadError\<close>: \<open>z.read(d)\<close> raises;
  \<^item> \<open>NotZipfile\<close>: \<open>zipfile.is_zipfile(bio)\<close> is false (the code executes \<open>continue\<close>);
  \<^item> \<open>BadZipfile\<close>: \<open>zipfile.ZipFile(bio)\<close> raises;
  \<^item> \<open>NoDiagramXml\<close>: \<open>Diagram.xml\<close> is not among the inner names (\<open>continue\<close>);
  \<^item> \<open>XmlParseError\<close>: \<open>ET.fromstring\<close> raises;
  \<^item> \<open>Root r\<close>: the document parses; \<open>r\<close> holds what the namespace-qualified
    \<open>findall\<close> queries of the code return on it.
\<close>

record xml_activity =
  act_Id :: string
  act_Name :: string
  has_Route :: bool
  has_Implementation :: bool

record xml_transition =
  tr_From :: string
  tr_To :: string
  tr_Name :: string

record xml_root =
  Pools :: "string list"
  Activities :: "xml_activity list"
  Transitions :: "xml_transition list"

datatype diag_read =
  ReadError | NotZipfile | BadZipfile | NoDiagramXml | XmlParseError
| Root (root_of: xml_root)

record bpm_archive =
  namelist :: "string list"
  zread :: "string \<Rightarrow> diag_read"

record node =
  node_id :: string
  node_name :: string
  node_type :: string
  has_implementation :: bool

record transition =
  t_from :: string
  t_to :: string
  t_name :: string

type_synonym nodes_dict = "(string \<times> node) list"

record parse_state =
  diagrams_labels :: "(string \<times> string) list"
  nodes_by_diag :: "(string \<times> nodes_dict) list"
  transitions_by_diag :: "(string \<times> transition list) list"

datatype import_error =
  NoDiagramsFound  \<comment> \<open>\<open>RuntimeError("Nenhum .diag encontrado dentro do .bpm")\<close>\<close>

definition diagram_label :: "string \<Rightarrow> xml_root \<Rightarrow> string" where
  "diagram_label d root =
     (let pool_names = map normalize_label (Pools root) in
      if pool_names = [] then d
      else (let preferred = filter (\<lambda>p. p \<noteq> [] \<and> py_lower p \<noteq> ''processo principal'') pool_names in
            if preferred \<noteq> [] then hd preferred
            else (if hd pool_names \<noteq> [] then hd pool_names else d)))"

definition activity_node :: "xml_activity \<Rightarrow> node" where
  "activity_node act =
     \<lparr>node_id = act_Id act, node_name = normalize_label (act_Name act),
      node_type = (if has_Route act then ''Route''
                   else if has_Implementation act then ''Task'' else ''Activity''),
      has_implementation = has_Implementation act\<rparr>"

fun collect_nodes :: "xml_activity list \<Rightarrow> nodes_dict \<Rightarrow> nodes_dict" where
  "collect_nodes [] nodes = nodes"
| "collect_nodes (act # acts) nodes =
     collect_nodes acts (AList.update (act_Id act) (activity_node act) nodes)"

definition transition_of :: "xml_transition \<Rightarrow> transition" where
  "transition_of tr = \<lparr>t_from = tr_From tr, t_to = tr_To tr, t_name = normalize_label (tr_Name tr)\<rparr>"

definition fallback :: "string \<Rightarrow> parse_state \<Rightarrow> parse_state" where
  \<comment> \<open>the \<open>except Exception\<close> branch\<close>
  "fallback d st = st\<lparr>diagrams_labels := diagrams_labels st @ [(d, d)]\<rparr>"

fun parse_diag :: "string \<Rightarrow> diag_read \<Rightarrow> parse_state \<Rightarrow> parse_state" where
  "parse_diag d ReadError st = fallback d st"
| "parse_diag d NotZipfile st = st"
| "parse_diag d BadZipfile st = fallback d st"
| "parse_diag d NoDiagramXml st = st"
| "parse_diag d XmlParseError st = fallback d st"
| "parse_diag d (Root root) st =
     \<lparr>diagrams_labels = diagrams_labels st @ [(d, diagram_label d root)],
      nodes_by_diag = AList.update d (collect_nodes (Activities root) []) (nodes_by_diag st),
      transitions_by_diag =
        AList.update d (map transition_of (Transitions root)) (transitions_by_diag st)\<rparr>"

fun parse_loop :: "(string \<Rightarrow> diag_read) \<Rightarrow> string list \<Rightarrow> parse_state \<Rightarrow> parse_state" where
  "parse_loop rd [] st = st"
| "parse_loop rd (d # ds) st = parse_loop rd ds (parse_diag d (rd d) st)"

definition diag_entries :: "bpm_archive \<Rightarrow> string list" where
  "diag_entries z = filter (\<lambda>n. py_endswith (py_lower n) ''.diag'') (namelist z)"

definition parse_bizagi_group_by_diagram ::
  "bpm_archive \<Rightarrow> import_error +
     ((string \<times> string) list \<times> (string \<times> nodes_dict) list \<times> (string \<times> transition list) list)" where
  "parse_bizagi_group_by_diagram z =
     (let diags = diag_entries z in
      if diags = [] then Inl NoDiagramsFound
      else (let st = parse_loop (zread z) diags
                       \<lparr>diagrams_labels = [], nodes_by_diag = [], transitions_by_diag = []\<rparr>
            in Inr (sort_key snd (diagrams_labels st), nodes_by_diag st, transitions_by_diag st)))"

text \<open>Vocabulary for the statements about the reader.\<close>

definition raises :: "diag_read \<Rightarrow> bool" where
  "raises r = (r = ReadError \<or> r = BadZipfile \<or> r = XmlParseError)"

definition skipped :: "diag_read \<Rightarrow> bool" where
  "skipped r = (r = NotZipfile \<or> r = NoDiagramXml)"

definition entry_label :: "string \<Rightarrow> diag_read \<Rightarrow> string" where
  "entry_label d r = (if is_Root r then diagram_label d (root_of r) else d)"

definition ties_by_entry_name :: "(string \<times> string) list \<Rightarrow> bool" where
  \<comment> \<open>sorted by label, equal labels ordered by entry name\<close>
  "ties_by_entry_name ls =
     sorted_wrt (\<lambda>a b. snd a < snd b \<or> (snd a = snd b \<and> fst a \<le> fst b)) ls"


subsection \<open>Example archives\<close>

definition ex_ties :: bpm_archive where
  "ex_ties = \<lparr>namelist = [''b.diag'', ''a.diag''],
     zread = (\<lambda>d. Root \<lparr>Pools = [''X''], Activities = [], Transitions = []\<rparr>)\<rparr>"

definition ex_skipped :: bpm_archive where
  "ex_skipped = \<lparr>namelist = [''a.diag''], zread = (\<lambda>d. NotZipfile)\<rparr>"

definition ex_one :: bpm_archive where
  "ex_one = \<lparr>namelist = [''readme.txt'', ''a.DIAG''],
     zread = (\<lambda>d. Root \<lparr>Pools = [''Processo  Principal'', ''Compras''], Activities = [], Transitions = []\<rparr>)\<rparr>"

definition ex_mixed :: bpm_archive where
  "ex_mixed = \<lparr>namelist = [''a.diag'', ''b.diag'', ''c.diag''],
     zread = (\<lambda>d. if d = ''a.diag'' then NotZipfile
                   else if d = ''c.diag'' then XmlParseError
                   else Root \<lparr>Pools = [''Compras''], Activities = [], Transitions = []\<rparr>)\<rparr>"

section \<open>Deriving decision fields from gateways\<close>

text \<open>
  \<open>build_task_fields_for_diagram\<close> receives the \<open>nodes\<close> dictionary (an association
  list in insertion order, as \<open>collect_nodes\<close> builds it) and the transition list of one
  diagram. The dictionaries \<open>out_by\<close>, \<open>in_by\<close> and \<open>task_fields\<close> are maps; the
  subscript \<open>task_fields[src["id"]]\<close> raises \<open>KeyError\<close> on a missing key.
\<close>

record field_data =
  fd_id :: string
  campo :: string
  tipo :: string
  opcoes :: "string list"

datatype py_error = KeyError | AttributeError

type_synonym trans_index = "string \<rightharpoonup> transition list"

definition str_Nao :: string where
  "str_Nao = [CHR ''N'', CHR 0xE3, CHR ''o'']"

definition str_nao_lower :: string where
  "str_nao_lower = [CHR ''n'', CHR 0xE3, CHR ''o'']"

definition str_Lista_Sim_Nao :: string where
  "str_Lista_Sim_Nao = ''Lista (Sim/N'' @ [CHR 0xE3] @ ''o)''"

definition setdefault_append :: "string \<Rightarrow> transition \<Rightarrow> trans_index \<Rightarrow> trans_index" where
  \<comment> \<open>\<open>m.setdefault(k, []).append(t)\<close>\<close>
  "setdefault_append k t m = m(k \<mapsto> (case m k of None \<Rightarrow> [] | Some l \<Rightarrow> l) @ [t])"

definition get_list :: "trans_index \<Rightarrow> string \<Rightarrow> transition list" where
  \<comment> \<open>\<open>m.get(k, [])\<close>\<close>
  "get_list m k = (case m k of None \<Rightarrow> [] | Some l \<Rightarrow> l)"

fun index_transitions ::
  "transition list \<Rightarrow> trans_index \<times> trans_index \<Rightarrow> trans_index \<times> trans_index" where
  "index_transitions [] (out_by, in_by) = (out_by, in_by)"
| "index_transitions (t # ts) (out_by, in_by) =
     index_transitions ts (setdefault_append (t_from t) t out_by, setdefault_append (t_to t) t in_by)"

definition is_impl_task :: "node \<Rightarrow> bool" where
  "is_impl_task n = (node_type n = ''Task'' \<and> has_implementation n)"

definition dest_name :: "nodes_dict \<Rightarrow> transition \<Rightarrow> string" where
  \<comment> \<open>\<open>nodes.get(t["to"], {}).get("name", "")\<close>\<close>
  "dest_name nodes t = (case map_of nodes (t_to t) of None \<Rightarrow> [] | Some n \<Rightarrow> node_name n)"

definition gateway_opts :: "nodes_dict \<Rightarrow> transition list \<Rightarrow> string list" where
  "gateway_opts nodes outgoing =
     (let opts = map t_name (filter (\<lambda>t. t_name t \<noteq> []) outgoing);
          opts1 = (if opts = [] \<and> outgoing \<noteq> []
                   then filter (\<lambda>x. x \<noteq> []) (map (dest_name nodes) outgoing) else opts)
      in if opts1 = [] \<and> length outgoing = 2 then [''Sim'', str_Nao] else opts1)"

definition gateway_tipo :: "string list \<Rightarrow> string" where
  "gateway_tipo opts =
     (if set (map py_lower opts) = {''sim'', str_nao_lower} \<or> set (map py_lower opts) = {''sim'', ''nao''}
      then str_Lista_Sim_Nao else ''Lista'')"

definition make_field :: "node \<Rightarrow> string \<Rightarrow> string \<Rightarrow> string list \<Rightarrow> node \<Rightarrow> field_data" where
  "make_field gw campo_nome tp opts src =
     \<lparr>fd_id = node_id src @ ''_'' @ node_id gw, campo = campo_nome, tipo = tp, opcoes = opts\<rparr>"

fun add_fields ::
  "nodes_dict \<Rightarrow> node \<Rightarrow> string \<Rightarrow> string \<Rightarrow> string list \<Rightarrow> transition list \<Rightarrow>
   (string \<rightharpoonup> field_data list) \<Rightarrow> py_error + (string \<rightharpoonup> field_data list)" where
  "add_fields nodes gw campo_nome tp opts [] task_fields = Inr task_fields"
| "add_fields nodes gw campo_nome tp opts (inc # incoming) task_fields =
     (case map_of nodes (t_from inc) of
        None \<Rightarrow> add_fields nodes gw campo_nome tp opts incoming task_fields
      | Some src \<Rightarrow>
          if is_impl_task src then
            (case task_fields (node_id src) of
               None \<Rightarrow> Inl KeyError
             | Some l \<Rightarrow> add_fields nodes gw campo_nome tp opts incoming
                          (task_fields(node_id src \<mapsto> l @ [make_field gw campo_nome tp opts src])))
          else add_fields nodes gw campo_nome tp opts incoming task_fields)"

definition gateway_step ::
  "nodes_dict \<Rightarrow> trans_index \<Rightarrow> trans_index \<Rightarrow> node \<Rightarrow>
   (string \<rightharpoonup> field_data list) \<Rightarrow> py_error + (string \<rightharpoonup> field_data list)" where
  "gateway_step nodes out_by in_by gw task_fields =
     (let incoming = get_list in_by (node_id gw);
          outgoing = get_list out_by (node_id gw);
          opts = gateway_opts nodes outgoing;
          tp = gateway_tipo opts;
          campo_nome = normalize_label (node_name gw)
      in add_fields nodes gw campo_nome tp opts incoming task_fields)"

fun gateways_loop ::
  "nodes_dict \<Rightarrow> trans_index \<Rightarrow> trans_index \<Rightarrow> node list \<Rightarrow>
   (string \<rightharpoonup> field_data list) \<Rightarrow> py_error + (string \<rightharpoonup> field_data list)" where
  "gateways_loop nodes out_by in_by [] task_fields = Inr task_fields"
| "gateways_loop nodes out_by in_by (gw # gws) task_fields =
     (case gateway_step nodes out_by in_by gw task_fields of
        Inl e \<Rightarrow> Inl e
      | Inr task_fields' \<Rightarrow> gateways_loop nodes out_by in_by gws task_fields')"

definition build_task_fields_for_diagram ::
  "nodes_dict \<Rightarrow> transition list \<Rightarrow> py_error + (node list \<times> (string \<rightharpoonup> field_data list))" where
  "build_task_fields_for_diagram nodes transitions =
     (case index_transitions transitions (Map.empty, Map.empty) of (out_by, in_by) \<Rightarrow>
        (let tasks = filter is_impl_task (map snd nodes);
             task_fields = map_of (map (\<lambda>t. (node_id t, [])) tasks)
         in case gateways_loop nodes out_by in_by
                   (filter (\<lambda>n. node_type n = ''Route'') (map snd nodes)) task_fields of
              Inl e \<Rightarrow> Inl e
            | Inr task_fields' \<Rightarrow> Inr (tasks, task_fields')))"

text \<open>
  The derivation rule in the words of the specification: the qualifying sources of a
  gateway are the source nodes of its incoming edges that are implemented tasks, one per
  edge and in transition order; each of them receives one candidate.
\<close>

definition qualifying :: "nodes_dict \<Rightarrow> transition list \<Rightarrow> node list" where
  "qualifying nodes incoming =
     List.map_filter (\<lambda>inc. case map_of nodes (t_from inc) of
                               None \<Rightarrow> None
                             | Some src \<Rightarrow> if is_impl_task src then Some src else None) incoming"

definition incoming_of :: "transition list \<Rightarrow> node \<Rightarrow> transition list" where
  "incoming_of transitions gw = filter (\<lambda>t. t_to t = node_id gw) transitions"

definition outgoing_of :: "transition list \<Rightarrow> node \<Rightarrow> transition list" where
  "outgoing_of transitions gw = filter (\<lambda>t. t_from t = node_id gw) transitions"

definition candidate :: "nodes_dict \<Rightarrow> transition list \<Rightarrow> node \<Rightarrow> node \<Rightarrow> field_data" where
  "candidate nodes transitions gw src =
     \<lparr>fd_id = node_id src @ ''_'' @ node_id gw,
      campo = normalize_label (node_name gw),
      tipo = gateway_tipo (gateway_opts nodes (outgoing_of transitions gw)),
      opcoes = gateway_opts nodes (outgoing_of transitions gw)\<rparr>"

definition gateway_candidates :: "nodes_dict \<Rightarrow> transition list \<Rightarrow> node \<Rightarrow> (string \<times> field_data) list" where
  \<comment> \<open>the candidates of one gateway, each with the id of the task it is attached to\<close>
  "gateway_candidates nodes transitions gw =
     map (\<lambda>src. (node_id src, candidate nodes transitions gw src))
       (qualifying nodes (incoming_of transitions gw))"

definition gateways :: "nodes_dict \<Rightarrow> node list" where
  "gateways nodes = filter (\<lambda>n. node_type n = ''Route'') (map snd nodes)"

text \<open>Every implemented task has its key in \<open>task_fields\<close>.\<close>

definition keys_ok :: "nodes_dict \<Rightarrow> (string \<rightharpoonup> field_data list) \<Rightarrow> bool" where
  "keys_ok nodes tf = (\<forall>n\<in>snd ` set nodes. is_impl_task n \<longrightarrow> tf (node_id n) \<noteq> None)"

subsection \<open>Example diagrams\<close>

definition ex_nodes :: nodes_dict where
  "ex_nodes =
     [(''A'', \<lparr>node_id = ''A'', node_name = ''Analisar'', node_type = ''Task'', has_implementation = True\<rparr>),
      (''B'', \<lparr>node_id = ''B'', node_name = ''Revisar'', node_type = ''Task'', has_implementation = True\<rparr>),
      (''G'', \<lparr>node_id = ''G'', node_name = ''Pedido  aprovado?'', node_type = ''Route'', has_implementation = False\<rparr>)]"

definition ex_transitions :: "transition list" where
  "ex_transitions =
     [\<lparr>t_from = ''A'', t_to = ''G'', t_name = ''''\<rparr>,
      \<lparr>t_from = ''B'', t_to = ''G'', t_name = ''''\<rparr>,
      \<lparr>t_from = ''G'', t_to = ''X'', t_name = ''Aprovado''\<rparr>,
      \<lparr>t_from = ''G'', t_to = ''Y'', t_name = ''Reprovado''\<rparr>]"

definition ex_transitions_unnamed :: "transition list" where
  "ex_transitions_unnamed =
     [\<lparr>t_from = ''A'', t_to = ''G'', t_name = ''''\<rparr>,
      \<lparr>t_from = ''G'', t_to = ''X'', t_name = ''''\<rparr>,
      \<lparr>t_from = ''G'', t_to = ''Y'', t_name = ''''\<rparr>]"

definition ex_gateway :: node where
  "ex_gateway = \<lparr>node_id = ''G'', node_name = ''Pedido  aprovado?'', node_type = ''Route'', has_implementation = False\<rparr>"

section \<open>The field graph model\<close>

text \<open>
  The dataclasses \<open>Condition\<close>, \<open>ObjectFieldDef\<close>, \<open>Field\<close>, \<open>Task\<close> and
  \<open>ProjectModel\<close>. \<open>Field.id\<close>, \<open>Field.note\<close>, \<open>Task.fields\<close> and the attributes of
  \<open>Condition\<close> are renamed where the name is taken in Isabelle.
\<close>

record condition =
  src_field :: string
  cond_op :: string
  cond_value :: string

record object_field_def =
  ofd_name :: string
  ofd_ftype :: string
  ofd_options :: string
  ofd_required :: bool
  ofd_readonly :: bool
  ofd_group :: string
  ofd_order :: int
  ofd_note :: string

record field =
  field_id :: string
  name :: string
  ftype :: string
  required :: bool
  readonly :: bool
  info :: string
  options :: string
  field_note :: string
  origin_task :: "string option"
  origin_field :: "string option"
  name_locked :: bool
  name_lock_reason :: string
  name_before_obj :: string
  name_before_origin :: string
  obj_type :: string
  cond :: "condition list"

record task =
  task_id :: string
  task_name :: string
  tfields :: "field list"

text \<open>
  An \<open>ObjectFieldDef\<close> is an object of a store, and \<open>object_schema\<close> lists addresses:
  \<open>ProjectModel.to_dict\<close> puts \<open>vars(ofd)\<close>, the attribute dictionary of the object
  itself, into the dictionary it returns, so a history entry shares the schema objects
  with the project it was taken from until \<open>ProjectModel.from_dict\<close> builds new ones.
  Tasks, fields and conditions are written attribute by attribute into new dictionaries
  and read back into new objects; they are values.
\<close>

record project_model =
  flow_name :: string
  tasks :: "task list"
  object_type :: string
  object_schema :: "nat list"

text \<open>
  The state of \<open>App\<close> that the operations read and write. A history entry is the
  dictionary of \<open>_serialize_project\<close>. \<open>ofd_store\<close> holds the \<open>ObjectFieldDef\<close> objects
  made so far, an address being a position in it; \<open>rows\<close> is \<open>len(self._rows)\<close>, the
  number of rows of the field table. The simulator window is closed
  (\<open>self.sim_window\<close> is \<open>None\<close>), and no entry widget holds a text that differs from
  the model.
\<close>

record snapshot =
  snap_project :: project_model
  snap_current_task_id :: "string option"
  snap_selected_field_ids :: "string set"

record app =
  project :: project_model
  current_task_id :: "string option"
  selected_field_ids :: "string set"
  undo_stack :: "snapshot list"
  redo_stack :: "snapshot list"
  ofd_store :: "object_field_def list"
  rows :: nat

definition UNDO_MAX :: nat where
  "UNDO_MAX = 50"

definition str_Lista_Varios :: string where
  "str_Lista_Varios = ''Lista V'' @ [CHR 0xE1] @ ''rios''"

definition LIST_FIELD_TYPES :: "string set" where
  "LIST_FIELD_TYPES = {''Lista'', str_Lista_Varios}"

definition truthy :: "string option \<Rightarrow> bool" where
  \<comment> \<open>Python truth of an \<open>Optional[str]\<close>\<close>
  "truthy x = (x \<noteq> None \<and> x \<noteq> Some [])"

definition py_strip :: "string \<Rightarrow> string" where
  "py_strip s = rev (dropWhile py_isspace (rev (dropWhile py_isspace s)))"

definition new_field :: "string \<Rightarrow> field" where
  \<comment> \<open>\<open>Field(id=uid)\<close> with the defaults of the dataclass\<close>
  "new_field uid =
     \<lparr>field_id = uid, name = ''Novo campo'', ftype = ''Texto'', required = False, readonly = False,
      info = [], options = [], field_note = [], origin_task = None, origin_field = None,
      name_locked = False, name_lock_reason = [], name_before_obj = [], name_before_origin = [],
      obj_type = [], cond = []\<rparr>"

definition init_app :: app where
  \<comment> \<open>the state after \<open>App.__init__\<close>\<close>
  "init_app =
     \<lparr>project = \<lparr>flow_name = ''Novo fluxo'', tasks = [], object_type = [], object_schema = []\<rparr>,
      current_task_id = None, selected_field_ids = {}, undo_stack = [], redo_stack = [],
      ofd_store = [], rows = 0\<rparr>"

fun find_index :: "('a \<Rightarrow> bool) \<Rightarrow> 'a list \<Rightarrow> nat option" where
  "find_index P [] = None"
| "find_index P (x # xs) = (if P x then Some 0 else map_option Suc (find_index P xs))"

text \<open>
  A \<open>Field\<close> or \<open>Task\<close> object handed to an operation is a position in the project:
  the task index and the field index inside the task.
\<close>

definition valid_ref :: "project_model \<Rightarrow> nat \<Rightarrow> nat \<Rightarrow> bool" where
  "valid_ref p ti fi = (ti < length (tasks p) \<and> fi < length (tfields (tasks p ! ti)))"

definition field_at :: "project_model \<Rightarrow> nat \<Rightarrow> nat \<Rightarrow> field" where
  "field_at p ti fi = tfields (tasks p ! ti) ! fi"

definition update_field_at :: "nat \<Rightarrow> nat \<Rightarrow> (field \<Rightarrow> field) \<Rightarrow> project_model \<Rightarrow> project_model" where
  "update_field_at ti fi g p =
     p\<lparr>tasks := (tasks p)[ti := (tasks p ! ti)
          \<lparr>tfields := (tfields (tasks p ! ti))[fi := g (tfields (tasks p ! ti) ! fi)]\<rparr>]\<rparr>"

definition map_fields :: "(field \<Rightarrow> field) \<Rightarrow> project_model \<Rightarrow> project_model" where
  \<comment> \<open>\<open>for t in self.project.tasks: for f in t.fields: ...\<close> with a body that touches \<open>f\<close> alone\<close>
  "map_fields g p = p\<lparr>tasks := map (\<lambda>t. t\<lparr>tfields := map g (tfields t)\<rparr>) (tasks p)\<rparr>"

definition all_fields :: "project_model \<Rightarrow> field list" where
  "all_fields p = concat (map tfields (tasks p))"

subsection \<open>Current task and history\<close>

definition get_task :: "app \<Rightarrow> nat option \<times> app" where
  \<comment> \<open>\<open>_get_task()\<close>: the index of the current task; it selects the first task when none is current\<close>
  "get_task s =
     (if current_task_id s = None \<and> tasks (project s) \<noteq> []
      then (Some 0, s\<lparr>current_task_id := Some (task_id (hd (tasks (project s))))\<rparr>)
      else (find_index (\<lambda>t. Some (task_id t) = current_task_id s) (tasks (project s)), s))"

definition refresh_field :: "field \<Rightarrow> field" where
  \<comment> \<open>what \<open>_add_row_widget\<close> writes into the field it shows\<close>
  "refresh_field f = (if ftype f = ''Informativo'' then f\<lparr>readonly := True\<rparr> else f)"

definition refresh_task :: "nat \<Rightarrow> project_model \<Rightarrow> project_model" where
  \<comment> \<open>\<open>for idx, f in enumerate(t.fields): self._add_row_widget(idx, f, t, positions)\<close>\<close>
  "refresh_task i p =
     p\<lparr>tasks := (tasks p)[i := (tasks p ! i)\<lparr>tfields := map refresh_field (tfields (tasks p ! i))\<rparr>]\<rparr>"

definition refresh_rows :: "app \<Rightarrow> app" where
  \<comment> \<open>\<open>_refresh_rows()\<close>: the table is emptied and gets one row for each field of the current task\<close>
  "refresh_rows s =
     (if tasks (project s) = [] then s\<lparr>rows := 0\<rparr>
      else (case get_task s of
              (None, s1) \<Rightarrow> s1\<lparr>rows := 0\<rparr>
            | (Some i, s1) \<Rightarrow>
                s1\<lparr>project := refresh_task i (project s1),
                   rows := length (tfields (tasks (project s1) ! i))\<rparr>))"

definition refresh_task_combo :: "app \<Rightarrow> app" where
  \<comment> \<open>\<open>_refresh_task_combo()\<close>: when no task is current the first one becomes current\<close>
  "refresh_task_combo s =
     (case get_task s of
        (Some i, s1) \<Rightarrow> s1
      | (None, s1) \<Rightarrow>
          s1\<lparr>current_task_id :=
               (if tasks (project s1) \<noteq> [] then Some (task_id (hd (tasks (project s1)))) else None)\<rparr>)"

definition refresh_all_ui :: "app \<Rightarrow> app" where
  \<comment> \<open>\<open>refresh_all_ui()\<close> of the tasks dialog\<close>
  "refresh_all_ui s = refresh_rows (refresh_task_combo s)"

definition serialize_project :: "app \<Rightarrow> snapshot \<times> app" where
  \<comment> \<open>the entry lists the addresses of the schema objects of the project: it shares them\<close>
  "serialize_project s =
     (case get_task s of (ti, s1) \<Rightarrow>
        (\<lparr>snap_project = project s1,
          snap_current_task_id = map_option (\<lambda>i. task_id (tasks (project s1) ! i)) ti,
          snap_selected_field_ids = selected_field_ids s1\<rparr>, s1))"

definition push_undo :: "app \<Rightarrow> app" where
  "push_undo s =
     (case serialize_project s of (snap, s1) \<Rightarrow>
        (let st = undo_stack s1 @ [snap]
         in s1\<lparr>undo_stack := (if length st > UNDO_MAX then tl st else st), redo_stack := []\<rparr>))"

fun adjust_fields :: "string \<Rightarrow> field list \<Rightarrow> string \<times> field list" where
  "adjust_fields ot [] = (ot, [])"
| "adjust_fields ot (f # fs) =
     (if ftype f = ''Objeto'' then
        (let ot1 = (if ot = [] then (if obj_type f \<noteq> [] then obj_type f else name f) else ot)
         in case adjust_fields ot1 fs of (ot2, fs') \<Rightarrow>
              (ot2, f\<lparr>obj_type := ot1, name := ot1, name_lock_reason := ''objeto'', name_locked := True\<rparr> # fs'))
      else (case adjust_fields ot fs of (ot2, fs') \<Rightarrow> (ot2, f # fs')))"

fun adjust_tasks :: "string \<Rightarrow> task list \<Rightarrow> string \<times> task list" where
  "adjust_tasks ot [] = (ot, [])"
| "adjust_tasks ot (t # ts) =
     (case adjust_fields ot (tfields t) of (ot1, fs') \<Rightarrow>
        (case adjust_tasks ot1 ts of (ot2, ts') \<Rightarrow> (ot2, t\<lparr>tfields := fs'\<rparr> # ts')))"

definition adjust_objects :: "project_model \<Rightarrow> project_model" where
  \<comment> \<open>the loop under \<open># ajustar campos Objeto\<close>\<close>
  "adjust_objects p =
     (case adjust_tasks (object_type p) (tasks p) of (ot, ts) \<Rightarrow> p\<lparr>object_type := ot, tasks := ts\<rparr>)"

definition in_ids :: "string option \<Rightarrow> string set \<Rightarrow> bool" where
  \<comment> \<open>\<open>x and x in ids\<close>\<close>
  "in_ids x ids = (case x of None \<Rightarrow> False | Some i \<Rightarrow> i \<noteq> [] \<and> i \<in> ids)"

definition from_dict :: "project_model \<Rightarrow> app \<Rightarrow> project_model \<times> app" where
  \<comment> \<open>\<open>ProjectModel.from_dict\<close> on the project of a history entry: \<open>ObjectFieldDef(**x)\<close> makes
      a new object from each shared dictionary, with the attributes it has at that moment
      (an address held by a project or a history entry is a position of the store)\<close>
  "from_dict d s =
     (let st = ofd_store s
      in (d\<lparr>object_schema := [length st ..< length st + length (object_schema d)]\<rparr>,
          s\<lparr>ofd_store := st @ map (\<lambda>a. st ! a) (object_schema d)\<rparr>))"

definition apply_project_dict :: "snapshot \<Rightarrow> app \<Rightarrow> app" where
  \<comment> \<open>\<open>_apply_project_dict(d)\<close> on a history entry: the project is built anew, the current
      task and the selection are set, the object-typed fields adjusted, and the task box
      and the field table rebuilt (\<open>_refresh_task_combo()\<close>, \<open>_refresh_rows()\<close>)\<close>
  "apply_project_dict d s0 =
     (case from_dict (snap_project d) s0 of (new_project, s) \<Rightarrow>
      let valid_ids = set (map task_id (tasks new_project));
          valid_field_ids = set (map field_id (all_fields new_project));
          desired_task_id =
            (if in_ids (snap_current_task_id d) valid_ids then snap_current_task_id d
             else if in_ids (current_task_id s) valid_ids then current_task_id s
             else None);
          cur = (if truthy desired_task_id then desired_task_id
                 else if tasks new_project \<noteq> [] then Some (task_id (hd (tasks new_project)))
                 else None)
      in refresh_rows (refresh_task_combo
           (s\<lparr>project := adjust_objects new_project,
              current_task_id := cur,
              selected_field_ids := snap_selected_field_ids d \<inter> valid_field_ids\<rparr>)))"



subsection \<open>Operations of the editor\<close>

text \<open>
  An operation returns what happened and the new state. A rejection stands for the
  warning box the code shows before it returns:
  \<^item> \<open>OriginIncompatible\<close>: "Campo Objeto nao pode ter origem.";
  \<^item> \<open>ObjectTypeConflict\<close>: "So 1 Objeto por tarefa.";
  \<^item> \<open>ObjectTypeMissing\<close>: the object-type dialog was closed without a name;
  \<^item> \<open>OriginOnObject\<close>: "Campos do tipo Objeto nao suportam origem.";
  \<^item> \<open>OriginNotFound\<close>: "Campo de origem nao encontrado.".
  \<open>Unchanged\<close> is a plain \<open>return\<close> before anything is written, \<open>Raised\<close> an exception
  that leaves the handler, \<open>NoSuchObject\<close> a position that is no field or task of the
  project (no call of the program passes one).
\<close>

datatype rejection =
  OriginIncompatible | ObjectTypeConflict | ObjectTypeMissing | OriginOnObject | OriginNotFound

datatype outcome = Done | Unchanged | Rejected rejection | Raised py_error | NoSuchObject


definition add_task :: "string \<Rightarrow> string \<Rightarrow> app \<Rightarrow> outcome \<times> app" where
  \<comment> \<open>\<open>add_task_from_entry\<close>: \<open>entry\<close> is the text typed, \<open>uid\<close> the value of \<open>_uid()\<close>\<close>
  "add_task entry uid s =
     (let nm = py_strip entry in
      if nm = [] then (Unchanged, s)
      else (let s1 = push_undo s;
                p = project s1;
                s2 = s1\<lparr>project := p\<lparr>tasks := tasks p @ [\<lparr>task_id = uid, task_name = nm, tfields = []\<rparr>]\<rparr>\<rparr>
            in (Done, refresh_all_ui
                        (if truthy (current_task_id s2) then s2 else s2\<lparr>current_task_id := Some uid\<rparr>))))"

definition add_field :: "string \<Rightarrow> app \<Rightarrow> outcome \<times> app" where
  \<comment> \<open>\<open>_add_field()\<close>: the new field gets a row of its own (\<open>_append_row_widget\<close>)\<close>
  "add_field uid s =
     (if tasks (project s) = [] then (Unchanged, s)
      else (case get_task (push_undo s) of
              (None, s2) \<Rightarrow> (Raised AttributeError, s2)
            | (Some i, s2) \<Rightarrow>
                (let p = project s2; t = tasks p ! i
                 in (Done, s2\<lparr>project := p\<lparr>tasks := (tasks p)
                                [i := t\<lparr>tfields := tfields t @ [refresh_field (new_field uid)]\<rparr>]\<rparr>,
                              rows := Suc (rows s2)\<rparr>))))"



definition unlink_origin :: "field \<Rightarrow> field" where
  \<comment> \<open>the four statements that clear an origin link, the same in every place that clears one\<close>
  "unlink_origin f =
     (let f1 = (if name_lock_reason f = ''origem'' \<and> name_before_origin f \<noteq> []
                then f\<lparr>name := name_before_origin f\<rparr> else f);
          r = (if name_lock_reason f1 = ''origem'' then [] else name_lock_reason f1)
      in f1\<lparr>origin_task := None, origin_field := None, name_lock_reason := r, name_locked := (r \<noteq> [])\<rparr>)"

definition cleanup_field :: "string set \<Rightarrow> field \<Rightarrow> field" where
  \<comment> \<open>the loop body of \<open>_delete_field\<close> (\<open>ids = {field_id}\<close>) and of \<open>cleanup_refs\<close>\<close>
  "cleanup_field ids f =
     (let f1 = f\<lparr>cond := filter (\<lambda>c. src_field c \<notin> ids) (cond f)\<rparr>
      in if (case origin_field f1 of None \<Rightarrow> False | Some x \<Rightarrow> x \<in> ids) then unlink_origin f1 else f1)"

definition delete_field :: "string \<Rightarrow> app \<Rightarrow> outcome \<times> app" where
  \<comment> \<open>\<open>_delete_field(field_id)\<close>: the row of the field is taken out of the table when the
      field is found in the current task and has a row, and the table is rebuilt otherwise\<close>
  "delete_field fid s =
     (if tasks (project s) = [] then (Unchanged, s)
      else (case get_task (push_undo s) of (ct, s2) \<Rightarrow>
              (let s3 = s2\<lparr>project := map_fields (cleanup_field {fid}) (project s2)\<rparr>
               in case ct of
                    None \<Rightarrow> (Raised AttributeError, s3)
                  | Some i \<Rightarrow>
                      (let p = project s3; t = tasks p ! i;
                           s4 = s3\<lparr>project := p\<lparr>tasks := (tasks p)
                                  [i := t\<lparr>tfields := filter (\<lambda>f. field_id f \<noteq> fid) (tfields t)\<rparr>]\<rparr>\<rparr>
                       in (Done, case find_index (\<lambda>f. field_id f = fid) (tfields t) of
                                   Some k \<Rightarrow> if k < rows s4 then s4\<lparr>rows := rows s4 - 1\<rparr>
                                             else refresh_rows s4
                                 | None \<Rightarrow> refresh_rows s4)))))"

definition cleanup_refs :: "string set \<Rightarrow> project_model \<Rightarrow> project_model" where
  "cleanup_refs deleted_field_ids p =
     (if deleted_field_ids = {} then p else map_fields (cleanup_field deleted_field_ids) p)"

definition delete_task :: "nat \<Rightarrow> app \<Rightarrow> outcome \<times> app" where
  \<comment> \<open>\<open>delete_task(t)\<close> of the tasks dialog, once the confirmation is answered with yes\<close>
  "delete_task ti s =
     (if ti \<ge> length (tasks (project s)) then (NoSuchObject, s)
      else (let t = tasks (project s) ! ti;
                s1 = push_undo s;
                p1 = cleanup_refs (set (map field_id (tfields t))) (project s1);
                ts = filter (\<lambda>x. task_id x \<noteq> task_id t) (tasks p1);
                s2 = s1\<lparr>project := p1\<lparr>tasks := ts\<rparr>\<rparr>
            in (Done, refresh_all_ui
                        (if current_task_id s2 = Some (task_id t)
                         then s2\<lparr>current_task_id := (if ts \<noteq> [] then Some (task_id (hd ts)) else None)\<rparr>
                         else s2))))"

definition object_type_dialog_ok :: "string \<Rightarrow> app \<Rightarrow> app" where
  \<comment> \<open>\<open>ok()\<close> of \<open>open_flow_object_type_dialog\<close> with the non-empty name \<open>nm\<close>\<close>
  "object_type_dialog_ok nm s =
     (let s1 = push_undo s
      in refresh_rows (s1\<lparr>project := map_fields
              (\<lambda>f. if ftype f = ''Objeto''
                    then f\<lparr>obj_type := nm, name := nm, name_lock_reason := ''objeto'', name_locked := True\<rparr>
                    else f)
              ((project s1)\<lparr>object_type := nm\<rparr>)\<rparr>))"

definition to_objeto :: "string \<Rightarrow> field \<Rightarrow> field" where
  "to_objeto ot f =
     f\<lparr>ftype := ''Objeto'',
       name_before_obj := (if name_lock_reason f \<noteq> ''objeto'' then name f else name_before_obj f),
       name := (if ot \<noteq> [] then ot else ''Objeto''),
       name_lock_reason := ''objeto'', name_locked := True, obj_type := ot\<rparr>"

definition from_objeto :: "string \<Rightarrow> field \<Rightarrow> field" where
  "from_objeto new_type f =
     (let f1 = (if name_lock_reason f = ''objeto'' \<and> name_before_obj f \<noteq> []
                then f\<lparr>name := name_before_obj f\<rparr> else f);
          r = (if name_lock_reason f1 = ''objeto'' then [] else name_lock_reason f1)
      in f1\<lparr>name_lock_reason := r, name_locked := (r \<noteq> []), obj_type := [], ftype := new_type\<rparr>)"

definition after_type :: "string \<Rightarrow> field \<Rightarrow> field" where
  \<comment> \<open>the two statements after the branches: \<open>Informativo\<close> is read-only, non-list types lose their options\<close>
  "after_type new_type f =
     (let f1 = (if new_type = ''Informativo'' then f\<lparr>readonly := True\<rparr> else f)
      in if new_type \<notin> LIST_FIELD_TYPES \<and> new_type \<noteq> ''Informativo'' then f1\<lparr>options := []\<rparr> else f1)"

definition attachment_editor :: "nat \<Rightarrow> nat \<Rightarrow> string option \<Rightarrow> app \<Rightarrow> app" where
  \<comment> \<open>\<open>_open_attachment_type_editor\<close>: \<open>None\<close> when the prompt is cancelled, else the note it writes\<close>
  "attachment_editor ti fi att s =
     (case att of
        None \<Rightarrow> s
      | Some n \<Rightarrow> (let s1 = push_undo s
                   in s1\<lparr>project := update_field_at ti fi (\<lambda>f. f\<lparr>field_note := n\<rparr>) (project s1)\<rparr>))"

definition finish_type :: "nat \<Rightarrow> nat \<Rightarrow> string \<Rightarrow> string \<Rightarrow> string option \<Rightarrow> app \<Rightarrow> outcome \<times> app" where
  "finish_type ti fi prev new_type att s =
     (let s1 = s\<lparr>project := update_field_at ti fi (after_type new_type) (project s)\<rparr>
      in (Done, if new_type = ''Anexo'' \<and> prev \<noteq> ''Anexo'' then attachment_editor ti fi att s1 else s1))"

definition change_to_objeto ::
  "nat \<Rightarrow> nat \<Rightarrow> string \<Rightarrow> string option \<Rightarrow> string option \<Rightarrow> app \<Rightarrow> outcome \<times> app" where
  \<comment> \<open>the branch \<open>if new_type == "Objeto"\<close>, entered after \<open>_push_undo()\<close>\<close>
  "change_to_objeto ti fi prev dlg att s1 =
     (let f = field_at (project s1) ti fi in
      if truthy (origin_task f) \<or> truthy (origin_field f) then (Rejected OriginIncompatible, s1)
      else (case get_task s1 of
              (None, s2) \<Rightarrow> (Raised AttributeError, s2)
            | (Some i, s2) \<Rightarrow>
                if \<exists>x\<in>set (tfields (tasks (project s2) ! i)). ftype x = ''Objeto'' \<and> field_id x \<noteq> field_id f
                then (Rejected ObjectTypeConflict, s2)
                else if object_type (project s2) = [] \<and> (dlg = None \<or> py_strip (the dlg) = [])
                then (Rejected ObjectTypeMissing, s2)
                else (let s3 = (if object_type (project s2) = []
                                then object_type_dialog_ok (py_strip (the dlg)) s2 else s2)
                      in finish_type ti fi prev ''Objeto'' att
                           (s3\<lparr>project := update_field_at ti fi
                                  (to_objeto (object_type (project s3))) (project s3)\<rparr>))))"

definition on_change_type ::
  "nat \<Rightarrow> nat \<Rightarrow> string \<Rightarrow> string option \<Rightarrow> string option \<Rightarrow> app \<Rightarrow> outcome \<times> app" where
  \<comment> \<open>\<open>dlg\<close>: the name typed into the object-type dialog, \<open>None\<close> when it is closed;
      \<open>att\<close>: the answer of the attachment editor\<close>
  "on_change_type ti fi new_type dlg att s =
     (if \<not> valid_ref (project s) ti fi then (NoSuchObject, s)
      else (let prev = ftype (field_at (project s) ti fi) in
        if new_type = prev then (Unchanged, s)
        else (let s1 = push_undo s in
          if new_type = ''Objeto'' then change_to_objeto ti fi prev dlg att s1
          else if prev = ''Objeto'' then
            finish_type ti fi prev new_type att
              (s1\<lparr>project := update_field_at ti fi (from_objeto new_type) (project s1)\<rparr>)
          else
            finish_type ti fi prev new_type att
              (s1\<lparr>project := update_field_at ti fi (\<lambda>f. f\<lparr>ftype := new_type\<rparr>) (project s1)\<rparr>))))"

definition link_origin :: "string \<Rightarrow> field \<Rightarrow> bool \<Rightarrow> bool \<Rightarrow> field \<Rightarrow> field" where
  "link_origin target_tid origin force_ro force_req f =
     f\<lparr>origin_task := Some target_tid, origin_field := Some (field_id origin),
       name_before_origin := (if name_lock_reason f \<noteq> ''origem'' then name f else name_before_origin f),
       name := name origin, ftype := ftype origin, options := options origin,
       name_lock_reason := ''origem'', name_locked := True,
       readonly := force_ro, required := force_req\<rparr>"

definition clear_origin :: "nat \<Rightarrow> nat \<Rightarrow> app \<Rightarrow> outcome \<times> app" where
  \<comment> \<open>\<open>clear()\<close> of the origin picker\<close>
  "clear_origin ti fi s =
     (let s1 = push_undo s in (Done, s1\<lparr>project := update_field_at ti fi unlink_origin (project s1)\<rparr>))"

definition set_origin ::
  "nat \<Rightarrow> nat \<Rightarrow> string \<Rightarrow> string \<Rightarrow> bool \<Rightarrow> bool \<Rightarrow> app \<Rightarrow> outcome \<times> app" where
  \<comment> \<open>\<open>open_origin_picker(f)\<close> followed by \<open>ok()\<close> with the task name \<open>sel_t\<close> and the field
      name \<open>sel_f\<close> chosen in the two combo boxes and the two check boxes\<close>
  "set_origin ti fi sel_t sel_f force_ro force_req s =
     (if \<not> valid_ref (project s) ti fi then (NoSuchObject, s)
      else if ftype (field_at (project s) ti fi) = ''Objeto'' then (Rejected OriginOnObject, s)
      else (let target_tid = map_option task_id (find (\<lambda>t. task_name t = sel_t) (tasks (project s))) in
        if \<not> truthy target_tid \<or> sel_f = [] \<or> sel_f = ''-'' then clear_origin ti fi s
        else (case find (\<lambda>t. Some (task_id t) = target_tid) (tasks (project s)) of
                None \<Rightarrow> (Unchanged, s)
              | Some t \<Rightarrow>
                  (case find (\<lambda>fld. name fld = sel_f) (tfields t) of
                     None \<Rightarrow> (Rejected OriginNotFound, s)
                   | Some origin \<Rightarrow>
                       (let s1 = push_undo s
                        in (Done, s1\<lparr>project := update_field_at ti fi
                               (link_origin (the target_tid) origin force_ro force_req) (project s1)\<rparr>))))))"

subsection \<open>Normal form of a restored project\<close>

text \<open>
  What the restore loop writes into an object-typed field once the global object-type
  name is \<open>ot\<close>, what the field table writes into the task it shows, and the projects
  that both leave as they are.
\<close>

definition force_object :: "string \<Rightarrow> field \<Rightarrow> field" where
  "force_object ot f =
     (if ftype f = ''Objeto''
      then f\<lparr>obj_type := ot, name := ot, name_lock_reason := ''objeto'', name_locked := True\<rparr> else f)"


definition refresh_shown :: "nat option \<Rightarrow> project_model \<Rightarrow> project_model" where
  \<comment> \<open>the project once the field table has shown the task at the given position, if any\<close>
  "refresh_shown c p = (case c of None \<Rightarrow> p | Some i \<Rightarrow> refresh_task i p)"


subsection \<open>Vocabulary of the statements\<close>



definition refs_gone :: "string set \<Rightarrow> project_model \<Rightarrow> bool" where
  \<comment> \<open>no rule source and no origin of a field of \<open>p\<close> is among \<open>ids\<close>\<close>
  "refs_gone ids p =
     (\<forall>f\<in>set (all_fields p). (\<forall>c\<in>set (cond f). src_field c \<notin> ids) \<and>
                              (\<forall>x. origin_field f = Some x \<longrightarrow> x \<notin> ids))"

definition link_cleared :: "field \<Rightarrow> field \<Rightarrow> bool" where
  \<comment> \<open>\<open>f\<close> has lost its origin link and become \<open>f'\<close>: the name comes back from the saved pre-link name when one is saved\<close>
  "link_cleared f f' =
     (origin_task f' = None \<and> origin_field f' = None \<and>
      (if name_lock_reason f = ''origem''
       then name f' = (if name_before_origin f \<noteq> [] then name_before_origin f else name f) \<and>
            name_lock_reason f' = [] \<and> \<not> name_locked f'
       else name f' = name f \<and> name_lock_reason f' = name_lock_reason f \<and>
            name_locked f' = (name_lock_reason f \<noteq> [])))"

definition shown_as :: "field \<Rightarrow> field \<Rightarrow> bool" where
  \<comment> \<open>\<open>f'\<close> is \<open>f\<close>, or \<open>f\<close> as the field table leaves it once it has shown it\<close>
  "shown_as f f' = (f' = f \<or> f' = refresh_field f)"

definition cascade_done :: "string set \<Rightarrow> project_model \<Rightarrow> project_model \<Rightarrow> bool" where
  \<comment> \<open>\<open>p'\<close> is what is left of \<open>p\<close> once the references to \<open>ids\<close> are cleaned\<close>
  "cascade_done ids p p' =
     (refs_gone ids p' \<and>
      (\<forall>f'\<in>set (all_fields p'). \<exists>f\<in>set (all_fields p).
          shown_as (cleanup_field ids f) f' \<and> field_id f' = field_id f \<and>
          ((\<exists>x\<in>ids. origin_field f = Some x) \<longrightarrow> link_cleared f f')))"

definition name_restored :: "string set \<Rightarrow> project_model \<Rightarrow> project_model \<Rightarrow> bool" where
  \<comment> \<open>the restoration as the claim words it: the saved pre-link name comes back\<close>
  "name_restored ids p p' =
     (\<forall>f\<in>set (all_fields p). field_id f \<notin> ids \<and> (\<exists>x\<in>ids. origin_field f = Some x) \<and>
         name_lock_reason f = ''origem'' \<longrightarrow>
         (\<exists>f'\<in>set (all_fields p'). field_id f' = field_id f \<and> name f' = name_before_origin f \<and>
             \<not> name_locked f'))"

definition has_origin :: "field \<Rightarrow> bool" where
  \<comment> \<open>\<open>f.origin_task or f.origin_field\<close>\<close>
  "has_origin f = (truthy (origin_task f) \<or> truthy (origin_field f))"

definition other_object :: "project_model \<Rightarrow> nat \<Rightarrow> nat \<Rightarrow> bool" where
  \<comment> \<open>the task at \<open>ti\<close> holds an object-typed field with another id than the field at \<open>fi\<close>\<close>
  "other_object p ti fi =
     (\<exists>x\<in>set (tfields (tasks p ! ti)). ftype x = ''Objeto'' \<and> field_id x \<noteq> field_id (field_at p ti fi))"

definition object_locked :: "project_model \<Rightarrow> field \<Rightarrow> bool" where
  \<comment> \<open>\<open>f\<close> is object-typed, carries the global object-type name and the object lock\<close>
  "object_locked p f =
     (ftype f = ''Objeto'' \<and> object_type p \<noteq> [] \<and> name f = object_type p \<and>
      obj_type f = object_type p \<and> name_lock_reason f = ''objeto'' \<and> name_locked f)"

definition same_identity :: "field \<Rightarrow> field \<Rightarrow> bool" where
  \<comment> \<open>\<open>f'\<close> differs from \<open>f\<close> at most in flags, options and note\<close>
  "same_identity f f' =
     (field_id f' = field_id f \<and> name f' = name f \<and> ftype f' = ftype f \<and>
      name_locked f' = name_locked f \<and> name_lock_reason f' = name_lock_reason f \<and>
      name_before_obj f' = name_before_obj f \<and> name_before_origin f' = name_before_origin f \<and>
      obj_type f' = obj_type f \<and> origin_task f' = origin_task f \<and> origin_field f' = origin_field f)"

subsection \<open>Example projects\<close>

text \<open>
  Concrete states for the evaluations: projects given directly, and states reached from
  them or from the initial state by the operations above.
\<close>

definition ex_object_field :: "string \<Rightarrow> string \<Rightarrow> string \<Rightarrow> field" where
  "ex_object_field fid nm ot =
     (new_field fid)\<lparr>name := nm, ftype := ''Objeto'', obj_type := ot,
                     name_lock_reason := ''objeto'', name_locked := True\<rparr>"

definition ex_app :: "string \<Rightarrow> task list \<Rightarrow> app" where
  "ex_app ot ts =
     \<lparr>project = \<lparr>flow_name = ''Novo fluxo'', tasks = ts, object_type = ot, object_schema = []\<rparr>,
      current_task_id = Some ''t1'', selected_field_ids = {}, undo_stack = [], redo_stack = [],
      ofd_store = [], rows = (case ts of [] \<Rightarrow> 0 | t # _ \<Rightarrow> length (tfields t))\<rparr>"


definition ex_blank_objects :: snapshot where
  "ex_blank_objects =
     \<lparr>snap_project = \<lparr>flow_name = ''Novo fluxo'',
         tasks = [\<lparr>task_id = ''t1'', task_name = ''Fase 1'', tfields = [ex_object_field ''o1'' [] []]\<rparr>,
                  \<lparr>task_id = ''t2'', task_name = ''Fase 2'', tfields = [ex_object_field ''o2'' ''Contrato'' []]\<rparr>],
         object_type = [], object_schema = []\<rparr>,
      snap_current_task_id = Some ''t1'', snap_selected_field_ids = {}\<rparr>"

definition ex_two_tasks :: "string \<Rightarrow> app" where
  "ex_two_tasks nm = ex_app []
     [\<lparr>task_id = ''t1'', task_name = ''Fase 1'', tfields = [(new_field ''a1'')\<lparr>name := ''Valor''\<rparr>]\<rparr>,
      \<lparr>task_id = ''t2'', task_name = ''Fase 2'', tfields = [(new_field ''b1'')\<lparr>name := nm\<rparr>]\<rparr>]"

definition ex_linked :: "string \<Rightarrow> app" where
  "ex_linked nm = snd (set_origin 1 0 ''Fase 1'' ''Valor'' True False (ex_two_tasks nm))"

definition ex_plain :: "string \<Rightarrow> app" where
  "ex_plain nm = ex_app ''Contrato''
     [\<lparr>task_id = ''t1'', task_name = ''Fase 1'', tfields = [(new_field ''b1'')\<lparr>name := nm\<rparr>]\<rparr>]"

definition ex_typed :: "string \<Rightarrow> app" where
  "ex_typed nm = snd (on_change_type 0 0 ''Objeto'' None None (ex_plain nm))"

definition ex_conflict :: app where
  "ex_conflict = ex_app ''Contrato''
     [\<lparr>task_id = ''t1'', task_name = ''Fase 1'',
       tfields = [ex_object_field ''o1'' ''Contrato'' ''Contrato'', new_field ''b1'']\<rparr>]"

definition ex_s1 :: app where
  "ex_s1 = snd (add_task ''Fase 1'' ''t1'' init_app)"

definition ex_s2 :: app where
  "ex_s2 = snd (add_field ''o1'' ex_s1)"

definition ex_s3 :: app where
  "ex_s3 = snd (on_change_type 0 0 ''Objeto'' (Some ''Contrato'') None ex_s2)"

definition ex_s4 :: app where
  "ex_s4 = snd (add_field ''b1'' ex_s3)"

definition ex_s5 :: app where
  "ex_s5 = snd (set_origin 0 1 ''Fase 1'' ''Contrato'' True False ex_s4)"






section \<open>Properties of the archive reader\<close>

lemmas eval_strings = py_endswith_def py_lower_def lower_char_def upper_chars_def lower_chars_def
  normalize_label_def py_split_def py_replace_def py_isspace_def

lemma sort_key_eq_Nil: "(sort_key f xs = []) = (xs = [])"
  by (cases xs) (simp_all add: insort_not_Nil)

lemma parse_diag_labels:
  "diagrams_labels (parse_diag d r st) =
     diagrams_labels st @ (if skipped r then [] else [(d, entry_label d r)])"
  by (cases r) (simp_all add: fallback_def skipped_def entry_label_def)

lemma parse_loop_labels:
  "diagrams_labels (parse_loop rd ds st) =
     diagrams_labels st @ map (\<lambda>d. (d, entry_label d (rd d))) (filter (\<lambda>d. \<not> skipped (rd d)) ds)"
  by (induction ds arbitrary: st) (simp_all add: parse_diag_labels)

lemma parse_diag_nodes:
  "map_of (nodes_by_diag (parse_diag d r st)) k =
     (if k = d \<and> is_Root r then Some (collect_nodes (Activities (root_of r)) [])
      else map_of (nodes_by_diag st) k)"
  by (cases r) (simp_all add: fallback_def update_conv')

lemma parse_loop_nodes:
  "map_of (nodes_by_diag (parse_loop rd ds st)) k =
     (if k \<in> set ds \<and> is_Root (rd k) then Some (collect_nodes (Activities (root_of (rd k))) [])
      else map_of (nodes_by_diag st) k)"
  by (induction ds arbitrary: st) (auto simp add: parse_diag_nodes)

lemma parse_diag_transitions:
  "map_of (transitions_by_diag (parse_diag d r st)) k =
     (if k = d \<and> is_Root r then Some (map transition_of (Transitions (root_of r)))
      else map_of (transitions_by_diag st) k)"
  by (cases r) (simp_all add: fallback_def update_conv')

lemma parse_loop_transitions:
  "map_of (transitions_by_diag (parse_loop rd ds st)) k =
     (if k \<in> set ds \<and> is_Root (rd k) then Some (map transition_of (Transitions (root_of (rd k))))
      else map_of (transitions_by_diag st) k)"
  by (induction ds arbitrary: st) (auto simp add: parse_diag_transitions)

lemma parse_loop_skipped:
  "\<forall>d\<in>set ds. skipped (rd d) \<Longrightarrow> parse_loop rd ds st = st"
  by (induction ds arbitrary: st) (auto simp add: skipped_def)

text \<open>What a successful read returns, entry by entry.\<close>

lemma parse_result:
  "parse_bizagi_group_by_diagram z = Inr (ls, nb, tb) \<Longrightarrow>
     diag_entries z \<noteq> [] \<and>
     ls = sort_key snd (map (\<lambda>d. (d, entry_label d (zread z d)))
            (filter (\<lambda>d. \<not> skipped (zread z d)) (diag_entries z))) \<and>
     (\<forall>k. map_of nb k = (if k \<in> set (diag_entries z) \<and> is_Root (zread z k)
            then Some (collect_nodes (Activities (root_of (zread z k))) []) else None)) \<and>
     (\<forall>k. map_of tb k = (if k \<in> set (diag_entries z) \<and> is_Root (zread z k)
            then Some (map transition_of (Transitions (root_of (zread z k)))) else None))"
  by (auto simp add: parse_bizagi_group_by_diagram_def Let_def parse_loop_labels
      parse_loop_nodes parse_loop_transitions split: if_splits)

lemma parse_total:
  "diag_entries z \<noteq> [] \<Longrightarrow> \<exists>ls nb tb. parse_bizagi_group_by_diagram z = Inr (ls, nb, tb)"
  by (simp add: parse_bizagi_group_by_diagram_def Let_def)

lemma raw_labels_nonempty:
  "d \<in> set ds \<Longrightarrow> \<not> skipped (rd d) \<Longrightarrow>
   map (\<lambda>d. (d, entry_label d (rd d))) (filter (\<lambda>d. \<not> skipped (rd d)) ds) \<noteq> []"
  by (auto simp add: filter_empty_conv)

lemma filter_raw_labels:
  "filter (\<lambda>x. fst x = k) (map (\<lambda>d. (d, entry_label d (rd d))) (filter (\<lambda>d. \<not> skipped (rd d)) ds))
     = (if skipped (rd k) then [] else map (\<lambda>d. (d, entry_label k (rd k))) (filter (\<lambda>d. d = k) ds))"
  by (induction ds) auto

lemma diag_entries_zread_update [simp]:
  "diag_entries (z\<lparr>zread := f\<rparr>) = diag_entries z"
  by (simp add: diag_entries_def)

lemma diag_entries_ex_ties: "diag_entries ex_ties = [''b.diag'', ''a.diag'']"
  by (simp add: ex_ties_def diag_entries_def eval_strings)

lemma diag_entries_ex_skipped: "diag_entries ex_skipped = [''a.diag'']"
  by (simp add: ex_skipped_def diag_entries_def eval_strings)

lemma diag_entries_ex_one: "diag_entries ex_one = [''a.DIAG'']"
  by (simp add: ex_one_def diag_entries_def eval_strings)

lemma diag_entries_ex_mixed: "diag_entries ex_mixed = [''a.diag'', ''b.diag'', ''c.diag'']"
  by (simp add: ex_mixed_def diag_entries_def eval_strings)

lemma parse_ex_ties:
  "parse_bizagi_group_by_diagram ex_ties =
     Inr ([(''b.diag'', ''X''), (''a.diag'', ''X'')],
          [(''b.diag'', []), (''a.diag'', [])], [(''b.diag'', []), (''a.diag'', [])])"
  by (simp add: parse_bizagi_group_by_diagram_def diag_entries_ex_ties)
     (simp add: ex_ties_def diagram_label_def eval_strings)

lemma parse_ex_mixed:
  "parse_bizagi_group_by_diagram ex_mixed =
     Inr ([(''b.diag'', ''Compras''), (''c.diag'', ''c.diag'')], [(''b.diag'', [])], [(''b.diag'', [])])"
  by (simp add: parse_bizagi_group_by_diagram_def diag_entries_ex_mixed)
     (simp add: ex_mixed_def diagram_label_def fallback_def eval_strings)

subsection \<open>Failure of the read (C3)\<close>

text \<open>
  C3, as stated: the read fails with \<open>NoDiagramsFound\<close> exactly when no entry yields a
  usable diagram. The code raises only when no entry name ends in \<open>.diag\<close>; an archive
  whose single \<open>.diag\<close> entry is not a zip file is read without failure and gives an empty
  list (which the caller \<open>run_import_flow\<close> reports with a warning).
\<close>

theorem no_usable_diagram_counterexample:
  "diag_entries ex_skipped = [''a.diag''] \<and> \<not> is_Root (zread ex_skipped ''a.diag'') \<and>
   parse_bizagi_group_by_diagram ex_skipped = Inr ([], [], []) \<and>
   parse_bizagi_group_by_diagram ex_skipped \<noteq> Inl NoDiagramsFound"
  by (simp add: parse_bizagi_group_by_diagram_def diag_entries_ex_skipped) (simp add: ex_skipped_def)

text \<open>
  C3, amended: the read fails with \<open>NoDiagramsFound\<close> exactly when the outer archive has no
  entry whose lowercased name ends in \<open>.diag\<close>; when at least one such entry yields a
  parseable diagram it returns a non-empty diagram list; when there are such entries and
  every one of them is skipped (not a zip file, or without \<open>Diagram.xml\<close>) it returns the
  empty list and does not fail.
\<close>

theorem read_fails_iff_no_diag_entry:
  "(parse_bizagi_group_by_diagram z = Inl NoDiagramsFound \<longleftrightarrow> diag_entries z = []) \<and>
   ((\<exists>d\<in>set (diag_entries z). is_Root (zread z d)) \<longrightarrow>
      (\<exists>ls nb tb. parse_bizagi_group_by_diagram z = Inr (ls, nb, tb) \<and> ls \<noteq> [])) \<and>
   (diag_entries z \<noteq> [] \<and> (\<forall>d\<in>set (diag_entries z). skipped (zread z d)) \<longrightarrow>
      parse_bizagi_group_by_diagram z = Inr ([], [], []))"
proof (intro conjI impI)
  show "parse_bizagi_group_by_diagram z = Inl NoDiagramsFound \<longleftrightarrow> diag_entries z = []"
    by (simp add: parse_bizagi_group_by_diagram_def Let_def)
next
  assume "\<exists>d\<in>set (diag_entries z). is_Root (zread z d)"
  then obtain d where d: "d \<in> set (diag_entries z)" "is_Root (zread z d)" by blast
  then have ns: "\<not> skipped (zread z d)" by (auto simp add: skipped_def)
  from d have ne: "diag_entries z \<noteq> []" by auto
  have "sort_key snd (map (\<lambda>d. (d, entry_label d (zread z d)))
          (filter (\<lambda>d. \<not> skipped (zread z d)) (diag_entries z))) \<noteq> []"
    using raw_labels_nonempty [of d "diag_entries z" "zread z"] d(1) ns
    by (simp only: sort_key_eq_Nil not_False_eq_True)
  with ne show "\<exists>ls nb tb. parse_bizagi_group_by_diagram z = Inr (ls, nb, tb) \<and> ls \<noteq> []"
    by (simp add: parse_bizagi_group_by_diagram_def Let_def parse_loop_labels)
next
  assume "diag_entries z \<noteq> [] \<and> (\<forall>d\<in>set (diag_entries z). skipped (zread z d))"
  then show "parse_bizagi_group_by_diagram z = Inr ([], [], [])"
    by (simp add: parse_bizagi_group_by_diagram_def Let_def parse_loop_skipped)
qed

theorem read_fails_iff_no_diag_entry_witness:
  "parse_bizagi_group_by_diagram ex_skipped = Inr ([], [], []) \<and>
   (\<exists>ls nb tb. parse_bizagi_group_by_diagram ex_one = Inr (ls, nb, tb) \<and> ls \<noteq> []) \<and>
   parse_bizagi_group_by_diagram \<lparr>namelist = [''readme.txt''], zread = (\<lambda>d. ReadError)\<rparr>
     = Inl NoDiagramsFound"
proof -
  have a: "diag_entries ex_skipped \<noteq> [] \<and>
           (\<forall>d\<in>set (diag_entries ex_skipped). skipped (zread ex_skipped d))"
    by (simp add: diag_entries_ex_skipped) (simp add: ex_skipped_def skipped_def)
  have b: "\<exists>d\<in>set (diag_entries ex_one). is_Root (zread ex_one d)"
    by (simp add: diag_entries_ex_one) (simp add: ex_one_def)
  have c: "diag_entries \<lparr>namelist = [''readme.txt''], zread = (\<lambda>d. ReadError)\<rparr> = []"
    by (simp add: diag_entries_def eval_strings)
  show ?thesis
    using a b c read_fails_iff_no_diag_entry [of ex_skipped] read_fails_iff_no_diag_entry [of ex_one]
      read_fails_iff_no_diag_entry [of "\<lparr>namelist = [''readme.txt''], zread = (\<lambda>d. ReadError)\<rparr>"]
    by blast
qed

subsection \<open>Entries that cannot be read (C8)\<close>

text \<open>
  C8, as stated: an entry that fails to open as a nested archive, lacks \<open>Diagram.xml\<close> or
  fails XML parsing becomes a label-only fallback entry. In \<open>ex_mixed\<close> the entry
  \<open>a.diag\<close> is not a zip file: the code executes \<open>continue\<close> and the entry is absent from
  the result, with no fallback label.
\<close>

theorem skipped_entry_counterexample:
  "diag_entries ex_mixed = [''a.diag'', ''b.diag'', ''c.diag''] \<and>
   zread ex_mixed ''a.diag'' = NotZipfile \<and>
   parse_bizagi_group_by_diagram ex_mixed =
     Inr ([(''b.diag'', ''Compras''), (''c.diag'', ''c.diag'')], [(''b.diag'', [])], [(''b.diag'', [])]) \<and>
   (''a.diag'', ''a.diag'') \<notin> set [(''b.diag'', ''Compras''), (''c.diag'', ''c.diag'')]"
  by (simp add: parse_ex_mixed diag_entries_ex_mixed) (simp add: ex_mixed_def)

text \<open>
  C8, amended: for every \<open>.diag\<close> entry \<open>d\<close> of a successful read, if reading it raises
  (the entry cannot be read, the nested archive cannot be opened, or \<open>Diagram.xml\<close> fails
  XML parsing) the result holds the label-only entry \<open>(d, d)\<close> and no nodes or transitions
  for \<open>d\<close>; if \<open>d\<close> is not a zip file or lacks \<open>Diagram.xml\<close> it is skipped and the result
  holds no entry for it at all; and whatever the outcome for \<open>d\<close> is, the labels, nodes and
  transitions of every other entry are the same.
\<close>

theorem entry_degradation:
  assumes "parse_bizagi_group_by_diagram z = Inr (ls, nb, tb)" and "d \<in> set (diag_entries z)"
  shows "(raises (zread z d) \<longrightarrow> (d, d) \<in> set ls \<and> map_of nb d = None \<and> map_of tb d = None) \<and>
         (skipped (zread z d) \<longrightarrow> d \<notin> fst ` set ls \<and> map_of nb d = None \<and> map_of tb d = None) \<and>
         (\<forall>r. \<exists>ls' nb' tb'.
            parse_bizagi_group_by_diagram (z\<lparr>zread := (zread z)(d := r)\<rparr>) = Inr (ls', nb', tb') \<and>
            (\<forall>d'. d' \<noteq> d \<longrightarrow> filter (\<lambda>x. fst x = d') ls' = filter (\<lambda>x. fst x = d') ls \<and>
                   map_of nb' d' = map_of nb d' \<and> map_of tb' d' = map_of tb d'))"
proof (intro conjI impI allI)
  note res = parse_result [OF assms(1)]
  let ?raw = "\<lambda>rd. map (\<lambda>d. (d, entry_label d (rd d))) (filter (\<lambda>d. \<not> skipped (rd d)) (diag_entries z))"
  from res have ls: "ls = sort_key snd (?raw (zread z))" by simp
  {
    assume r: "raises (zread z d)"
    then have "\<not> skipped (zread z d)" "\<not> is_Root (zread z d)"
      by (auto simp add: raises_def skipped_def)
    then show "(d, d) \<in> set ls" using assms(2) by (auto simp add: ls entry_label_def)
    show "map_of nb d = None" using res \<open>\<not> is_Root (zread z d)\<close> by simp
    show "map_of tb d = None" using res \<open>\<not> is_Root (zread z d)\<close> by simp
  }
  {
    assume s: "skipped (zread z d)"
    then have nr: "\<not> is_Root (zread z d)" by (auto simp add: skipped_def)
    show "d \<notin> fst ` set ls" using s by (auto simp add: ls)
    show "map_of nb d = None" using res nr by simp
    show "map_of tb d = None" using res nr by simp
  }
  {
    fix r
    let ?z' = "z\<lparr>zread := (zread z)(d := r)\<rparr>"
    from res have "diag_entries ?z' \<noteq> []" by simp
    from parse_total [OF this] obtain ls' nb' tb'
      where p': "parse_bizagi_group_by_diagram ?z' = Inr (ls', nb', tb')" by blast
    note res' = parse_result [OF p']
    have "filter (\<lambda>x. fst x = d') ls' = filter (\<lambda>x. fst x = d') ls \<and>
          map_of nb' d' = map_of nb d' \<and> map_of tb' d' = map_of tb d'" if "d' \<noteq> d" for d'
    proof -
      from res' have ls': "ls' = sort_key snd (?raw ((zread z)(d := r)))" by simp
      have "filter (\<lambda>x. fst x = d') ls' = filter (\<lambda>x. fst x = d') ls"
        unfolding ls ls' filter_sort filter_raw_labels using that by simp
      moreover have "map_of nb' d' = map_of nb d'" using res res' that by simp
      moreover have "map_of tb' d' = map_of tb d'" using res res' that by simp
      ultimately show ?thesis by blast
    qed
    with p' show "\<exists>ls' nb' tb'.
            parse_bizagi_group_by_diagram ?z' = Inr (ls', nb', tb') \<and>
            (\<forall>d'. d' \<noteq> d \<longrightarrow> filter (\<lambda>x. fst x = d') ls' = filter (\<lambda>x. fst x = d') ls \<and>
                   map_of nb' d' = map_of nb d' \<and> map_of tb' d' = map_of tb d')" by blast
  }
qed

theorem entry_degradation_witness:
  "(''c.diag'', ''c.diag'') \<in> set [(''b.diag'', ''Compras''), (''c.diag'', ''c.diag'')] \<and>
   ''a.diag'' \<notin> fst ` set [(''b.diag'', ''Compras''), (''c.diag'', ''c.diag'')]"
proof -
  have c: "''c.diag'' \<in> set (diag_entries ex_mixed)" and a: "''a.diag'' \<in> set (diag_entries ex_mixed)"
    by (simp_all add: diag_entries_ex_mixed)
  have rc: "raises (zread ex_mixed ''c.diag'')" and sa: "skipped (zread ex_mixed ''a.diag'')"
    by (simp_all add: ex_mixed_def raises_def skipped_def)
  show ?thesis
    using entry_degradation [OF parse_ex_mixed c] entry_degradation [OF parse_ex_mixed a] rc sa
    by blast
qed

subsection \<open>Order of the diagram list (C9)\<close>

text \<open>
  C9, as stated: the list is sorted by label and diagrams with equal labels are ordered by
  entry name. The code sorts with \<open>key=lambda x: x[1]\<close> alone; in \<open>ex_ties\<close> the entries
  \<open>b.diag\<close> and \<open>a.diag\<close> have the same label and stay in archive order.
\<close>

theorem ties_counterexample:
  "parse_bizagi_group_by_diagram ex_ties =
     Inr ([(''b.diag'', ''X''), (''a.diag'', ''X'')],
          [(''b.diag'', []), (''a.diag'', [])], [(''b.diag'', []), (''a.diag'', [])])
   \<and> \<not> ties_by_entry_name [(''b.diag'', ''X''), (''a.diag'', ''X'')]"
  by (simp add: parse_ex_ties) (simp add: ties_by_entry_name_def)

text \<open>
  C9, amended: the list returned by the read is sorted by label under code-point string
  comparison, and the diagrams with one and the same label appear in the order in which
  their entries are enumerated in the archive (the sort is stable and has no second key).
\<close>

theorem labels_sorted_stable:
  assumes "parse_bizagi_group_by_diagram z = Inr (ls, nb, tb)"
  shows "sorted (map snd ls) \<and>
         (\<forall>k. map fst (filter (\<lambda>x. snd x = k) ls) =
              filter (\<lambda>d. \<not> skipped (zread z d) \<and> entry_label d (zread z d) = k) (diag_entries z))"
proof -
  let ?raw = "map (\<lambda>d. (d, entry_label d (zread z d)))
                (filter (\<lambda>d. \<not> skipped (zread z d)) (diag_entries z))"
  from parse_result [OF assms] have ls: "ls = sort_key snd ?raw" by simp
  have "sorted (map snd ls)" unfolding ls by (rule sorted_sort_key)
  moreover have "map fst (filter (\<lambda>x. snd x = k) ls) =
              filter (\<lambda>d. \<not> skipped (zread z d) \<and> entry_label d (zread z d) = k) (diag_entries z)" for k
  proof -
    have "filter (\<lambda>x. snd x = k) ls = filter (\<lambda>x. snd x = k) ?raw"
      unfolding ls by (rule sort_key_stable)
    then show ?thesis by (simp add: filter_map comp_def conj_commute)
  qed
  ultimately show ?thesis by blast
qed

theorem labels_sorted_stable_witness:
  "sorted (map snd [(''b.diag'', ''X''), (''a.diag'', ''X'')]) \<and>
   map fst (filter (\<lambda>x. snd x = ''X'') [(''b.diag'', ''X''), (''a.diag'', ''X'')]) =
     filter (\<lambda>d. \<not> skipped (zread ex_ties d) \<and> entry_label d (zread ex_ties d) = ''X'')
       (diag_entries ex_ties)"
proof -
  from labels_sorted_stable [OF parse_ex_ties] show ?thesis by blast
qed

section \<open>Properties of the decision-field derivation\<close>

lemma get_list_setdefault:
  "get_list (setdefault_append k t m) k' = (if k' = k then get_list m k @ [t] else get_list m k')"
  by (simp add: get_list_def setdefault_append_def)

lemma index_transitions_get:
  "get_list (fst (index_transitions ts (out_by, in_by))) k =
     get_list out_by k @ filter (\<lambda>t. t_from t = k) ts \<and>
   get_list (snd (index_transitions ts (out_by, in_by))) k =
     get_list in_by k @ filter (\<lambda>t. t_to t = k) ts"
  by (induction ts arbitrary: out_by in_by) (auto simp add: get_list_setdefault)

lemma index_transitions_empty:
  "index_transitions ts (Map.empty, Map.empty) = (out_by, in_by) \<Longrightarrow>
   get_list out_by k = filter (\<lambda>t. t_from t = k) ts \<and> get_list in_by k = filter (\<lambda>t. t_to t = k) ts"
  using index_transitions_get [of ts Map.empty Map.empty k] by (simp add: get_list_def)

lemma qualifying_Cons:
  "qualifying nodes (inc # incs) =
     (case map_of nodes (t_from inc) of None \<Rightarrow> qualifying nodes incs
      | Some src \<Rightarrow> if is_impl_task src then src # qualifying nodes incs else qualifying nodes incs)"
  by (simp add: qualifying_def map_filter_simps split: option.splits)

lemma qualifying_Nil [simp]: "qualifying nodes [] = []"
  by (simp add: qualifying_def map_filter_simps)

lemma add_fields_result:
  "keys_ok nodes tf \<Longrightarrow>
   \<exists>tf'. add_fields nodes gw cn tp opts incs tf = Inr tf' \<and> keys_ok nodes tf' \<and>
     (\<forall>k. tf' k = map_option (\<lambda>l. l @ map (make_field gw cn tp opts)
                       (filter (\<lambda>src. node_id src = k) (qualifying nodes incs))) (tf k))"
proof (induction incs arbitrary: tf)
  case Nil
  then show ?case by (simp add: option.map_ident)
next
  case (Cons inc incs)
  show ?case
  proof (cases "map_of nodes (t_from inc)")
    case None
    with Cons show ?thesis by (simp add: qualifying_Cons)
  next
    case (Some src)
    show ?thesis
    proof (cases "is_impl_task src")
      case False
      with Some Cons show ?thesis by (simp add: qualifying_Cons)
    next
      case True
      from Some have "src \<in> snd ` set nodes" by (force dest: map_of_SomeD)
      with True Cons.prems obtain l where l: "tf (node_id src) = Some l"
        by (auto simp add: keys_ok_def)
      let ?tf1 = "tf(node_id src \<mapsto> l @ [make_field gw cn tp opts src])"
      have "keys_ok nodes ?tf1" using Cons.prems by (simp add: keys_ok_def)
      from Cons.IH [OF this] obtain tf' where
        r: "add_fields nodes gw cn tp opts incs ?tf1 = Inr tf'" "keys_ok nodes tf'"
           "\<forall>k. tf' k = map_option (\<lambda>l. l @ map (make_field gw cn tp opts)
                       (filter (\<lambda>src. node_id src = k) (qualifying nodes incs))) (?tf1 k)"
        by blast
      have "add_fields nodes gw cn tp opts (inc # incs) tf = Inr tf'"
        using Some True l r(1) by simp
      moreover have "tf' k = map_option (\<lambda>l. l @ map (make_field gw cn tp opts)
                       (filter (\<lambda>src. node_id src = k) (qualifying nodes (inc # incs)))) (tf k)" for k
        using r(3) Some True l by (cases "tf k") (auto simp add: qualifying_Cons)
      ultimately show ?thesis using r(2) by blast
    qed
  qed
qed

lemma map_option_append_comp:
  "map_option (\<lambda>l. l @ ys) (map_option (\<lambda>l. l @ xs) v) = map_option (\<lambda>l. l @ xs @ ys) v"
  by (cases v) simp_all

lemma gateways_loop_result:
  assumes idx: "\<And>k. get_list out_by k = filter (\<lambda>t. t_from t = k) transitions"
               "\<And>k. get_list in_by k = filter (\<lambda>t. t_to t = k) transitions"
  shows "keys_ok nodes tf \<Longrightarrow>
   \<exists>tf'. gateways_loop nodes out_by in_by gws tf = Inr tf' \<and>
     (\<forall>k. tf' k = map_option (\<lambda>l. l @ map snd (filter (\<lambda>c. fst c = k)
                       (concat (map (gateway_candidates nodes transitions) gws)))) (tf k))"
proof (induction gws arbitrary: tf)
  case Nil
  then show ?case by (simp add: option.map_ident)
next
  case (Cons gw gws)
  let ?opts = "gateway_opts nodes (outgoing_of transitions gw)"
  let ?mk = "make_field gw (normalize_label (node_name gw)) (gateway_tipo ?opts) ?opts"
  have step: "gateway_step nodes out_by in_by gw tf =
     add_fields nodes gw (normalize_label (node_name gw)) (gateway_tipo ?opts) ?opts
       (incoming_of transitions gw) tf"
    by (simp add: gateway_step_def Let_def idx incoming_of_def outgoing_of_def)
  from add_fields_result [OF Cons.prems, of gw "normalize_label (node_name gw)" "gateway_tipo ?opts" ?opts
      "incoming_of transitions gw"]
  obtain tf1 where
    r1: "gateway_step nodes out_by in_by gw tf = Inr tf1" "keys_ok nodes tf1"
        "\<forall>k. tf1 k = map_option (\<lambda>l. l @ map ?mk
                (filter (\<lambda>src. node_id src = k) (qualifying nodes (incoming_of transitions gw)))) (tf k)"
    unfolding step by blast
  have mk: "?mk = candidate nodes transitions gw"
    by (rule ext) (simp add: make_field_def candidate_def)
  have gc: "map snd (filter (\<lambda>c. fst c = k) (gateway_candidates nodes transitions gw)) =
            map ?mk (filter (\<lambda>src. node_id src = k) (qualifying nodes (incoming_of transitions gw)))" for k
    unfolding mk by (simp add: gateway_candidates_def filter_map comp_def)
  from Cons.IH [OF r1(2)] obtain tf' where
    r2: "gateways_loop nodes out_by in_by gws tf1 = Inr tf'"
        "\<forall>k. tf' k = map_option (\<lambda>l. l @ map snd (filter (\<lambda>c. fst c = k)
                       (concat (map (gateway_candidates nodes transitions) gws)))) (tf1 k)"
    by blast
  have "gateways_loop nodes out_by in_by (gw # gws) tf = Inr tf'"
    using r1(1) r2(1) by simp
  moreover have "tf' k = map_option (\<lambda>l. l @ map snd (filter (\<lambda>c. fst c = k)
                       (concat (map (gateway_candidates nodes transitions) (gw # gws))))) (tf k)" for k
    using r2(2) r1(3) by (simp add: map_option_append_comp gc [symmetric])
  ultimately show ?case by blast
qed

lemma initial_task_fields:
  "map_of (map (\<lambda>t. (node_id t, [])) ts) k = (if k \<in> node_id ` set ts then Some [] else None)"
  by (induction ts) auto

lemma keys_ok_initial:
  "keys_ok nodes (map_of (map (\<lambda>t. (node_id t, [])) (filter is_impl_task (map snd nodes))))"
  by (auto simp add: keys_ok_def initial_task_fields)

lemma build_result:
  "\<exists>tf. build_task_fields_for_diagram nodes transitions =
           Inr (filter is_impl_task (map snd nodes), tf) \<and>
        (\<forall>k. tf k = (if k \<in> node_id ` set (filter is_impl_task (map snd nodes))
                      then Some (map snd (filter (\<lambda>c. fst c = k)
                             (concat (map (gateway_candidates nodes transitions) (gateways nodes)))))
                      else None))"
proof -
  obtain out_by in_by where oi: "index_transitions transitions (Map.empty, Map.empty) = (out_by, in_by)"
    by (cases "index_transitions transitions (Map.empty, Map.empty)") blast
  note idx = index_transitions_empty [OF oi]
  let ?tasks = "filter is_impl_task (map snd nodes)"
  let ?tf0 = "map_of (map (\<lambda>t. (node_id t, [])) ?tasks)"
  from gateways_loop_result [of out_by transitions in_by nodes ?tf0 "gateways nodes", OF _ _ keys_ok_initial]
    idx
  obtain tf where
    r: "gateways_loop nodes out_by in_by (gateways nodes) ?tf0 = Inr tf"
       "\<forall>k. tf k = map_option (\<lambda>l. l @ map snd (filter (\<lambda>c. fst c = k)
                       (concat (map (gateway_candidates nodes transitions) (gateways nodes))))) (?tf0 k)"
    by blast
  have "build_task_fields_for_diagram nodes transitions = Inr (?tasks, tf)"
    using r(1) by (simp add: build_task_fields_for_diagram_def oi Let_def gateways_def)
  moreover have "tf k = (if k \<in> node_id ` set ?tasks
                      then Some (map snd (filter (\<lambda>c. fst c = k)
                             (concat (map (gateway_candidates nodes transitions) (gateways nodes)))))
                      else None)" for k
    using r(2) by (simp add: initial_task_fields)
  ultimately show ?thesis by blast
qed


lemma length_qualifying:
  "length (qualifying nodes incs) =
     length (filter (\<lambda>inc. \<exists>src. map_of nodes (t_from inc) = Some src \<and> is_impl_task src) incs)"
  by (induction incs) (auto simp add: qualifying_Cons split: option.splits)

lemma qualifying_is_task:
  "src \<in> set (qualifying nodes incs) \<Longrightarrow> src \<in> snd ` set nodes \<and> is_impl_task src"
proof (induction incs)
  case Nil
  then show ?case by simp
next
  case (Cons inc incs)
  then show ?case
    by (auto simp add: qualifying_Cons split: option.splits if_splits dest!: map_of_SomeD) force+
qed

lemma lower_Sim_Nao: "map py_lower [''Sim'', str_Nao] = [''sim'', str_nao_lower]"
  by (simp add: eval_strings str_Nao_def str_nao_lower_def)

lemma tipo_Sim_Nao: "gateway_tipo [''Sim'', str_Nao] = str_Lista_Sim_Nao"
  unfolding gateway_tipo_def lower_Sim_Nao by simp

lemma opts_binary_fallback:
  assumes "length outgoing = 2" and "\<forall>t\<in>set outgoing. t_name t = [] \<and> dest_name nodes t = []"
  shows "gateway_opts nodes outgoing = [''Sim'', str_Nao]"
proof -
  have a: "filter (\<lambda>t. t_name t \<noteq> []) outgoing = []" using assms(2) by (simp add: filter_empty_conv)
  have b: "filter (\<lambda>x. x \<noteq> []) (map (dest_name nodes) outgoing) = []"
    using assms(2) by (simp add: filter_empty_conv)
  show ?thesis using assms(1) by (simp add: gateway_opts_def a b)
qed

subsection \<open>One candidate per qualifying incoming edge (C6)\<close>

text \<open>
  C6: \<open>build_task_fields_for_diagram\<close> always returns (no \<open>KeyError\<close>); the tasks are
  the implemented tasks, and the fields of a task are, gateway by gateway in node order,
  the candidates of the gateway whose source is that task. A gateway has exactly one
  candidate per incoming edge whose source node is an implemented task, each attached to
  a task of the result; the candidate's id is the source task id, an underscore and the
  gateway id, its label is the normalized gateway name; the candidates of one gateway
  share label, options and kind, and sources with distinct ids give distinct candidate ids.
\<close>

theorem decision_candidates:
  "\<exists>tf. build_task_fields_for_diagram nodes transitions =
           Inr (filter is_impl_task (map snd nodes), tf) \<and>
     (\<forall>k. tf k = (if k \<in> node_id ` set (filter is_impl_task (map snd nodes))
                   then Some (map snd (filter (\<lambda>c. fst c = k)
                          (concat (map (gateway_candidates nodes transitions) (gateways nodes)))))
                   else None)) \<and>
     (\<forall>gw. length (gateway_candidates nodes transitions gw) =
            length (filter (\<lambda>inc. \<exists>src. map_of nodes (t_from inc) = Some src \<and> is_impl_task src)
                      (incoming_of transitions gw)) \<and>
           (\<forall>c\<in>set (gateway_candidates nodes transitions gw).
               fst c \<in> node_id ` set (filter is_impl_task (map snd nodes)))) \<and>
     (\<forall>gw a b.
        fd_id (candidate nodes transitions gw a) = node_id a @ ''_'' @ node_id gw \<and>
        campo (candidate nodes transitions gw a) = normalize_label (node_name gw) \<and>
        campo (candidate nodes transitions gw a) = campo (candidate nodes transitions gw b) \<and>
        opcoes (candidate nodes transitions gw a) = opcoes (candidate nodes transitions gw b) \<and>
        tipo (candidate nodes transitions gw a) = tipo (candidate nodes transitions gw b) \<and>
        (node_id a \<noteq> node_id b \<longrightarrow>
           fd_id (candidate nodes transitions gw a) \<noteq> fd_id (candidate nodes transitions gw b)))"
proof -
  from build_result [of nodes transitions] obtain tf where
    r: "build_task_fields_for_diagram nodes transitions = Inr (filter is_impl_task (map snd nodes), tf)"
       "\<forall>k. tf k = (if k \<in> node_id ` set (filter is_impl_task (map snd nodes))
                   then Some (map snd (filter (\<lambda>c. fst c = k)
                          (concat (map (gateway_candidates nodes transitions) (gateways nodes)))))
                   else None)"
    by blast
  have l: "length (gateway_candidates nodes transitions gw) =
            length (filter (\<lambda>inc. \<exists>src. map_of nodes (t_from inc) = Some src \<and> is_impl_task src)
                      (incoming_of transitions gw))" for gw
    by (simp add: gateway_candidates_def length_qualifying)
  have m: "fst c \<in> node_id ` set (filter is_impl_task (map snd nodes))"
    if "c \<in> set (gateway_candidates nodes transitions gw)" for c gw
    using that qualifying_is_task [of _ nodes "incoming_of transitions gw"]
    by (auto simp add: gateway_candidates_def)
  have c: "fd_id (candidate nodes transitions gw a) = node_id a @ ''_'' @ node_id gw \<and>
        campo (candidate nodes transitions gw a) = normalize_label (node_name gw) \<and>
        campo (candidate nodes transitions gw a) = campo (candidate nodes transitions gw b) \<and>
        opcoes (candidate nodes transitions gw a) = opcoes (candidate nodes transitions gw b) \<and>
        tipo (candidate nodes transitions gw a) = tipo (candidate nodes transitions gw b) \<and>
        (node_id a \<noteq> node_id b \<longrightarrow>
           fd_id (candidate nodes transitions gw a) \<noteq> fd_id (candidate nodes transitions gw b))" for gw a b
    by (simp add: candidate_def)
  from r l m c show ?thesis by blast
qed

lemma ex_gateways: "gateways ex_nodes = [ex_gateway]"
  by (simp add: gateways_def ex_nodes_def ex_gateway_def)

lemma ex_candidates:
  "gateway_candidates ex_nodes ex_transitions ex_gateway =
     [(''A'', \<lparr>fd_id = ''A_G'', campo = ''Pedido aprovado?'', tipo = ''Lista'', opcoes = [''Aprovado'', ''Reprovado'']\<rparr>),
      (''B'', \<lparr>fd_id = ''B_G'', campo = ''Pedido aprovado?'', tipo = ''Lista'', opcoes = [''Aprovado'', ''Reprovado'']\<rparr>)]"
  by (simp add: gateway_candidates_def candidate_def qualifying_def map_filter_simps incoming_of_def outgoing_of_def
      ex_nodes_def ex_transitions_def ex_gateway_def is_impl_task_def gateway_opts_def gateway_tipo_def eval_strings
      str_nao_lower_def doubleton_eq_iff)

theorem decision_candidates_witness:
  "\<exists>tf. build_task_fields_for_diagram ex_nodes ex_transitions =
          Inr ([\<lparr>node_id = ''A'', node_name = ''Analisar'', node_type = ''Task'', has_implementation = True\<rparr>,
                \<lparr>node_id = ''B'', node_name = ''Revisar'', node_type = ''Task'', has_implementation = True\<rparr>], tf) \<and>
     tf ''A'' = Some [\<lparr>fd_id = ''A_G'', campo = ''Pedido aprovado?'', tipo = ''Lista'', opcoes = [''Aprovado'', ''Reprovado'']\<rparr>] \<and>
     tf ''B'' = Some [\<lparr>fd_id = ''B_G'', campo = ''Pedido aprovado?'', tipo = ''Lista'', opcoes = [''Aprovado'', ''Reprovado'']\<rparr>] \<and>
     tf ''G'' = None"
proof -
  have t: "filter is_impl_task (map snd ex_nodes) =
     [\<lparr>node_id = ''A'', node_name = ''Analisar'', node_type = ''Task'', has_implementation = True\<rparr>,
      \<lparr>node_id = ''B'', node_name = ''Revisar'', node_type = ''Task'', has_implementation = True\<rparr>]"
    by (simp add: ex_nodes_def is_impl_task_def)
  from decision_candidates [of ex_nodes ex_transitions] obtain tf where
    r: "build_task_fields_for_diagram ex_nodes ex_transitions = Inr (filter is_impl_task (map snd ex_nodes), tf)"
       "\<forall>k. tf k = (if k \<in> node_id ` set (filter is_impl_task (map snd ex_nodes))
                   then Some (map snd (filter (\<lambda>c. fst c = k)
                          (concat (map (gateway_candidates ex_nodes ex_transitions) (gateways ex_nodes)))))
                   else None)"
    by blast
  have "tf ''A'' = Some [\<lparr>fd_id = ''A_G'', campo = ''Pedido aprovado?'', tipo = ''Lista'', opcoes = [''Aprovado'', ''Reprovado'']\<rparr>]"
    "tf ''B'' = Some [\<lparr>fd_id = ''B_G'', campo = ''Pedido aprovado?'', tipo = ''Lista'', opcoes = [''Aprovado'', ''Reprovado'']\<rparr>]"
    "tf ''G'' = None"
    by (simp_all add: r(2) t ex_gateways ex_candidates)
  with r(1) t show ?thesis by simp
qed

subsection \<open>Binary fallback (C7)\<close>

text \<open>
  C7: for a gateway with exactly two outgoing transitions, all unnamed and all leading to
  nodes with an empty name (or to no node of the diagram), the options computed for the
  gateway are \<open>[''Sim'', str_Nao]\<close> (the yes/no pair) and the kind is
  \<open>str_Lista_Sim_Nao\<close> (the binary list kind), in the gateway step of the code and in
  every candidate of the gateway.
\<close>

theorem binary_fallback:
  assumes "length (outgoing_of transitions gw) = 2"
    and "\<forall>t\<in>set (outgoing_of transitions gw). t_name t = [] \<and> dest_name nodes t = []"
  shows "gateway_opts nodes
           (get_list (fst (index_transitions transitions (Map.empty, Map.empty))) (node_id gw))
           = [''Sim'', str_Nao] \<and>
         gateway_tipo (gateway_opts nodes
           (get_list (fst (index_transitions transitions (Map.empty, Map.empty))) (node_id gw)))
           = str_Lista_Sim_Nao \<and>
         (\<forall>c\<in>set (gateway_candidates nodes transitions gw).
            opcoes (snd c) = [''Sim'', str_Nao] \<and> tipo (snd c) = str_Lista_Sim_Nao)"
proof -
  have og: "get_list (fst (index_transitions transitions (Map.empty, Map.empty))) (node_id gw)
              = outgoing_of transitions gw"
    using index_transitions_get [of transitions Map.empty Map.empty "node_id gw"]
    by (simp add: get_list_def outgoing_of_def)
  have o: "gateway_opts nodes (outgoing_of transitions gw) = [''Sim'', str_Nao]"
    using assms by (rule opts_binary_fallback)
  show ?thesis
    by (auto simp add: og o tipo_Sim_Nao gateway_candidates_def candidate_def)
qed

theorem binary_fallback_witness:
  "gateway_opts ex_nodes
     (get_list (fst (index_transitions ex_transitions_unnamed (Map.empty, Map.empty))) ''G'')
     = [''Sim'', str_Nao] \<and>
   gateway_candidates ex_nodes ex_transitions_unnamed ex_gateway =
     [(''A'', \<lparr>fd_id = ''A_G'', campo = ''Pedido aprovado?'', tipo = str_Lista_Sim_Nao,
               opcoes = [''Sim'', str_Nao]\<rparr>)]"
proof -
  have o: "outgoing_of ex_transitions_unnamed ex_gateway =
     [\<lparr>t_from = ''G'', t_to = ''X'', t_name = ''''\<rparr>, \<lparr>t_from = ''G'', t_to = ''Y'', t_name = ''''\<rparr>]"
    by (simp add: outgoing_of_def ex_transitions_unnamed_def ex_gateway_def)
  have a: "length (outgoing_of ex_transitions_unnamed ex_gateway) = 2" by (simp add: o)
  have b: "\<forall>t\<in>set (outgoing_of ex_transitions_unnamed ex_gateway). t_name t = [] \<and> dest_name ex_nodes t = []"
    by (simp add: o dest_name_def ex_nodes_def)
  have g: "node_id ex_gateway = ''G''" by (simp add: ex_gateway_def)
  have q: "qualifying ex_nodes (incoming_of ex_transitions_unnamed ex_gateway) =
     [\<lparr>node_id = ''A'', node_name = ''Analisar'', node_type = ''Task'', has_implementation = True\<rparr>]"
    by (simp add: qualifying_def map_filter_simps incoming_of_def ex_transitions_unnamed_def
        ex_gateway_def ex_nodes_def is_impl_task_def)
  have n: "normalize_label (node_name ex_gateway) = ''Pedido aprovado?''"
    by (simp add: ex_gateway_def eval_strings)
  from binary_fallback [OF a b] have
    r: "gateway_opts ex_nodes
          (get_list (fst (index_transitions ex_transitions_unnamed (Map.empty, Map.empty))) ''G'')
          = [''Sim'', str_Nao]"
       "\<forall>c\<in>set (gateway_candidates ex_nodes ex_transitions_unnamed ex_gateway).
            opcoes (snd c) = [''Sim'', str_Nao] \<and> tipo (snd c) = str_Lista_Sim_Nao"
    by (simp_all add: g)
  from r(2) have "gateway_candidates ex_nodes ex_transitions_unnamed ex_gateway =
     [(''A'', \<lparr>fd_id = ''A_G'', campo = ''Pedido aprovado?'', tipo = str_Lista_Sim_Nao,
               opcoes = [''Sim'', str_Nao]\<rparr>)]"
    by (simp add: gateway_candidates_def q candidate_def n g tipo_Sim_Nao)
  with r(1) show ?thesis by simp
qed

section \<open>Properties of the history\<close>

lemma get_task_project [simp]: "project (snd (get_task s)) = project s"
  by (simp add: get_task_def)

lemma get_task_stacks [simp]:
  "undo_stack (snd (get_task s)) = undo_stack s" "redo_stack (snd (get_task s)) = redo_stack s"
  "ofd_store (snd (get_task s)) = ofd_store s" "rows (snd (get_task s)) = rows s"
  by (simp_all add: get_task_def)

lemma get_task_fst:
  "fst (get_task s) =
     (if current_task_id s = None \<and> tasks (project s) \<noteq> [] then Some 0
      else find_index (\<lambda>t. Some (task_id t) = current_task_id s) (tasks (project s)))"
  by (simp add: get_task_def)

lemma find_index_first: "xs \<noteq> [] \<Longrightarrow> P (hd xs) \<Longrightarrow> find_index P xs = Some 0"
  by (cases xs) simp_all

lemma find_index_map: "find_index P (map f xs) = find_index (\<lambda>x. P (f x)) xs"
  by (induction xs) simp_all

lemma get_task_idem: "fst (get_task (snd (get_task s))) = fst (get_task s)"
  by (simp add: get_task_def find_index_first)

lemma get_task_cong:
  assumes "current_task_id s' = current_task_id s"
    and "map task_id (tasks (project s')) = map task_id (tasks (project s))"
  shows "fst (get_task s') = fst (get_task s)"
proof -
  have e: "tasks (project s') = [] \<longleftrightarrow> tasks (project s) = []"
    using assms(2) by (metis map_is_Nil_conv)
  have "find_index (\<lambda>t. Some (task_id t) = c) (tasks (project s')) =
        find_index (\<lambda>t. Some (task_id t) = c) (tasks (project s))" for c
    using find_index_map [of "\<lambda>i. Some i = c" task_id "tasks (project s')"]
          find_index_map [of "\<lambda>i. Some i = c" task_id "tasks (project s)"] assms(2) by simp
  then show ?thesis using assms(1) e by (simp add: get_task_fst)
qed

lemma serialize_project_snd [simp]:
  "project (snd (serialize_project s)) = project s"
  "undo_stack (snd (serialize_project s)) = undo_stack s"
  "redo_stack (snd (serialize_project s)) = redo_stack s"
  "ofd_store (snd (serialize_project s)) = ofd_store s"
  "rows (snd (serialize_project s)) = rows s"
  by (simp_all add: serialize_project_def split: prod.splits) (simp_all add: get_task_def split: if_splits)

lemma serialize_project_fst [simp]:
  "snap_project (fst (serialize_project s)) = project s"
  by (simp add: serialize_project_def split: prod.splits) (simp add: get_task_def split: if_splits)

lemma push_undo_project [simp]: "project (push_undo s) = project s"
  by (cases "serialize_project s") (use serialize_project_snd(1) [of s] in \<open>simp add: push_undo_def Let_def\<close>)

lemma push_undo_store [simp]:
  "ofd_store (push_undo s) = ofd_store s" "rows (push_undo s) = rows s"
  by (cases "serialize_project s",
      use serialize_project_snd(4,5) [of s] in \<open>simp add: push_undo_def Let_def\<close>)+

lemma last_trim: "xs \<noteq> [] \<Longrightarrow> last (if length (xs @ [x]) > n then tl (xs @ [x]) else xs @ [x]) = x"
  by (cases xs) simp_all

lemma push_undo_stack:
  "undo_stack (push_undo s) \<noteq> [] \<and> snap_project (last (undo_stack (push_undo s))) = project s"
proof (cases "serialize_project s")
  case (Pair snap s1)
  then have sp: "snap_project snap = project s" using serialize_project_fst [of s] by simp
  let ?st = "undo_stack s1 @ [snap]"
  have u: "undo_stack (push_undo s) = (if length ?st > UNDO_MAX then tl ?st else ?st)"
    using Pair by (simp add: push_undo_def Let_def)
  have ne: "(if length ?st > UNDO_MAX then tl ?st else ?st) \<noteq> []"
    by (cases "undo_stack s1") (simp_all add: UNDO_MAX_def)
  have "last (if length ?st > UNDO_MAX then tl ?st else ?st) = snap"
    by (cases "undo_stack s1") (simp_all add: UNDO_MAX_def)
  with u ne sp show ?thesis by simp
qed

text \<open>What the field table and the task box write.\<close>

lemma refresh_field_id [simp]: "field_id (refresh_field f) = field_id f"
  by (simp add: refresh_field_def)


lemma refresh_new_field [simp]: "refresh_field (new_field uid) = new_field uid"
  by (simp add: refresh_field_def new_field_def)

lemma refresh_task_parts [simp]:
  "flow_name (refresh_task i p) = flow_name p" "object_type (refresh_task i p) = object_type p"
  "object_schema (refresh_task i p) = object_schema p"
  "length (tasks (refresh_task i p)) = length (tasks p)"
  by (simp_all add: refresh_task_def)

lemma refresh_task_ids [simp]: "map task_id (tasks (refresh_task i p)) = map task_id (tasks p)"
proof (cases "i < length (tasks p)")
  case True
  then show ?thesis by (simp add: refresh_task_def map_update list_update_same_conv)
next
  case False
  then show ?thesis by (simp add: refresh_task_def list_update_beyond)
qed

lemma refresh_shown_parts [simp]:
  "flow_name (refresh_shown c p) = flow_name p" "object_type (refresh_shown c p) = object_type p"
  "object_schema (refresh_shown c p) = object_schema p"
  "map task_id (tasks (refresh_shown c p)) = map task_id (tasks p)"
  by (cases c; simp add: refresh_shown_def)+



lemma refresh_rows_stacks [simp]:
  "undo_stack (refresh_rows s) = undo_stack s" "redo_stack (refresh_rows s) = redo_stack s"
  "ofd_store (refresh_rows s) = ofd_store s"
proof -
  obtain c s1 where g: "get_task s = (c, s1)" by (cases "get_task s")
  then have "undo_stack s1 = undo_stack s" "redo_stack s1 = redo_stack s" "ofd_store s1 = ofd_store s"
    using get_task_stacks [of s] by simp_all
  then show "undo_stack (refresh_rows s) = undo_stack s" "redo_stack (refresh_rows s) = redo_stack s"
    "ofd_store (refresh_rows s) = ofd_store s"
    using g by (cases c; simp add: refresh_rows_def)+
qed

lemma refresh_rows_project:
  "project (refresh_rows s) = refresh_shown (fst (get_task s)) (project s)"
proof -
  obtain c s1 where g: "get_task s = (c, s1)" by (cases "get_task s")
  then have p: "project s1 = project s" using get_task_project [of s] by simp
  show ?thesis
  proof (cases "tasks (project s) = []")
    case True
    then have "fst (get_task s) = None" by (simp add: get_task_fst)
    with True show ?thesis by (simp add: refresh_rows_def refresh_shown_def)
  next
    case False
    then show ?thesis using g p by (cases c) (simp_all add: refresh_rows_def refresh_shown_def)
  qed
qed

lemma refresh_rows_current: "fst (get_task (refresh_rows s)) = fst (get_task s)"
proof -
  obtain c s1 where g: "get_task s = (c, s1)" by (cases "get_task s")
  then have s1: "s1 = snd (get_task s)" by simp
  have i: "fst (get_task s1) = fst (get_task s)" unfolding s1 by (rule get_task_idem)
  show ?thesis
  proof (cases "tasks (project s) = []")
    case True
    then show ?thesis by (simp add: refresh_rows_def get_task_fst)
  next
    case False
    have "fst (get_task (refresh_rows s)) = fst (get_task s1)"
      using False g by (cases c; intro get_task_cong; simp add: refresh_rows_def)
    with i show ?thesis by simp
  qed
qed

lemma refresh_task_combo_parts [simp]:
  "project (refresh_task_combo s) = project s"
  "undo_stack (refresh_task_combo s) = undo_stack s" "redo_stack (refresh_task_combo s) = redo_stack s"
  "ofd_store (refresh_task_combo s) = ofd_store s"
proof -
  obtain c s1 where g: "get_task s = (c, s1)" by (cases "get_task s")
  then have "project s1 = project s" "undo_stack s1 = undo_stack s" "redo_stack s1 = redo_stack s"
    "ofd_store s1 = ofd_store s"
    using get_task_project [of s] get_task_stacks [of s] by simp_all
  then show "project (refresh_task_combo s) = project s"
    "undo_stack (refresh_task_combo s) = undo_stack s" "redo_stack (refresh_task_combo s) = redo_stack s"
    "ofd_store (refresh_task_combo s) = ofd_store s"
    using g by (cases c; simp add: refresh_task_combo_def)+
qed

lemma refresh_all_ui_parts [simp]:
  "undo_stack (refresh_all_ui s) = undo_stack s" "redo_stack (refresh_all_ui s) = redo_stack s"
  "ofd_store (refresh_all_ui s) = ofd_store s"
  by (simp_all add: refresh_all_ui_def)

lemma refresh_all_ui_project:
  "project (refresh_all_ui s) = refresh_shown (fst (get_task (refresh_all_ui s))) (project s)"
  by (simp add: refresh_all_ui_def refresh_rows_project refresh_rows_current)

text \<open>Restoring a history entry.\<close>

lemma adjust_objects_schema:
  "adjust_objects (p\<lparr>object_schema := x\<rparr>) = (adjust_objects p)\<lparr>object_schema := x\<rparr>"
  by (simp add: adjust_objects_def split: prod.splits)

lemma adjust_objects_flow_name [simp]: "flow_name (adjust_objects p) = flow_name p"
  by (simp add: adjust_objects_def split: prod.splits)

lemma apply_project_dict_stacks [simp]:
  "undo_stack (apply_project_dict d s) = undo_stack s"
  "redo_stack (apply_project_dict d s) = redo_stack s"
  by (simp_all add: apply_project_dict_def from_dict_def Let_def)

lemma apply_project_dict_project:
  "project (apply_project_dict d s) =
     refresh_shown (fst (get_task (apply_project_dict d s)))
       ((adjust_objects (snap_project d))
          \<lparr>object_schema := [length (ofd_store s) ..<
                               length (ofd_store s) + length (object_schema (snap_project d))]\<rparr>)"
  by (simp add: apply_project_dict_def from_dict_def Let_def refresh_rows_project refresh_rows_current
      adjust_objects_schema)



text \<open>
  A history entry lists the schema objects of the project it was taken from, and a
  restore copies them as they are at the restore: what was written into one of them
  after the entry was taken comes back with it.
\<close>

lemma push_undo_schema:
  "object_schema (snap_project (last (undo_stack (push_undo s)))) = object_schema (project s)"
  using push_undo_stack [of s] by simp

lemma nth_appended: "map ((!) (xs @ ys)) [length xs ..< length xs + length ys] = ys"
  by (rule nth_equalityI) (simp_all add: nth_append)

lemma apply_project_dict_store:
  "ofd_store (apply_project_dict d s) =
     ofd_store s @ map ((!) (ofd_store s)) (object_schema (snap_project d))"
  by (simp add: apply_project_dict_def from_dict_def Let_def)

lemma apply_project_dict_schema:
  "map ((!) (ofd_store (apply_project_dict d s))) (object_schema (project (apply_project_dict d s))) =
     map ((!) (ofd_store s)) (object_schema (snap_project d))"
  using nth_appended [of "ofd_store s" "map ((!) (ofd_store s)) (object_schema (snap_project d))"]
  by (simp add: apply_project_dict_store) (simp add: apply_project_dict_project)


lemma adjust_tasks_ids: "map task_id (snd (adjust_tasks ot ts)) = map task_id ts"
proof (induction ts arbitrary: ot)
  case Nil
  show ?case by simp
next
  case (Cons t ts)
  obtain ot1 fs' where a: "adjust_fields ot (tfields t) = (ot1, fs')"
    by (cases "adjust_fields ot (tfields t)")
  obtain ot2 ts' where b: "adjust_tasks ot1 ts = (ot2, ts')" by (cases "adjust_tasks ot1 ts")
  from Cons [of ot1] b have "map task_id ts' = map task_id ts" by simp
  then show ?case using a b by simp
qed

lemma adjust_objects_ids [simp]: "map task_id (tasks (adjust_objects p)) = map task_id (tasks p)"
proof -
  obtain ot ts where a: "adjust_tasks (object_type p) (tasks p) = (ot, ts)"
    by (cases "adjust_tasks (object_type p) (tasks p)")
  with adjust_tasks_ids [of "object_type p" "tasks p"] show ?thesis
    by (simp add: adjust_objects_def)
qed












subsection \<open>Normalization on restore (C10)\<close>

text \<open>
  C10 at the failing input \<open>ex_blank_objects\<close>: no global object-type name, a first
  object-typed field with empty \<open>obj_type\<close> and empty name, a second one named
  \<open>Contrato\<close>. The loop adopts nothing from the first field, writes the empty name into
  it, adopts \<open>Contrato\<close> from the second: the first object-typed field does not carry the
  global object-type name after the restore.
\<close>

theorem restore_adoption_failing_input:
  "object_type (project (apply_project_dict ex_blank_objects init_app)) = ''Contrato'' \<and>
   ftype (field_at (project (apply_project_dict ex_blank_objects init_app)) 0 0) = ''Objeto'' \<and>
   name (field_at (project (apply_project_dict ex_blank_objects init_app)) 0 0) = [] \<and>
   obj_type (field_at (project (apply_project_dict ex_blank_objects init_app)) 0 0) = [] \<and>
   name (field_at (project (apply_project_dict ex_blank_objects init_app)) 1 0) = ''Contrato''"
  by (simp add: apply_project_dict_def from_dict_def adjust_objects_def Let_def ex_blank_objects_def
      ex_object_field_def new_field_def field_at_def init_app_def in_ids_def truthy_def all_fields_def
      refresh_task_combo_def refresh_rows_def get_task_def refresh_task_def refresh_field_def)


section \<open>Properties of deletion\<close>


lemma cleanup_field_id [simp]: "field_id (cleanup_field ids f) = field_id f"
  by (simp add: cleanup_field_def unlink_origin_def Let_def)

lemma cleanup_field_empty [simp]: "cleanup_field {} f = f"
  by (simp add: cleanup_field_def Let_def split: option.splits)

lemma cleanup_field_clean:
  "(\<forall>c\<in>set (cond (cleanup_field ids f)). src_field c \<notin> ids) \<and>
   (\<forall>x. origin_field (cleanup_field ids f) = Some x \<longrightarrow> x \<notin> ids)"
  by (auto simp add: cleanup_field_def unlink_origin_def Let_def split: option.splits)

lemma cleanup_field_unlinks:
  assumes "origin_field f = Some x" and "x \<in> ids"
  shows "origin_task (cleanup_field ids f) = None \<and> origin_field (cleanup_field ids f) = None \<and>
         (name_lock_reason f = ''origem'' \<longrightarrow>
            name (cleanup_field ids f) = (if name_before_origin f \<noteq> [] then name_before_origin f else name f) \<and>
            name_lock_reason (cleanup_field ids f) = [] \<and> \<not> name_locked (cleanup_field ids f)) \<and>
         (name_lock_reason f \<noteq> ''origem'' \<longrightarrow>
            name (cleanup_field ids f) = name f \<and>
            name_lock_reason (cleanup_field ids f) = name_lock_reason f \<and>
            name_locked (cleanup_field ids f) = (name_lock_reason f \<noteq> []))"
  using assms by (simp add: cleanup_field_def unlink_origin_def Let_def)

lemma all_fields_map_fields: "all_fields (map_fields g p) = map g (all_fields p)"
  by (simp add: all_fields_def map_fields_def map_concat comp_def)

lemma cleanup_refs_eq: "cleanup_refs ids p = map_fields (cleanup_field ids) p"
proof (cases "ids = {}")
  case True
  have "map (\<lambda>t. t\<lparr>tfields := map (cleanup_field {}) (tfields t)\<rparr>) (tasks p) = tasks p"
    by (rule map_idI) (simp add: map_idI)
  with True show ?thesis by (simp add: cleanup_refs_def map_fields_def)
next
  case False
  then show ?thesis by (simp add: cleanup_refs_def)
qed

lemma all_fields_update:
  "i < length (tasks p) \<Longrightarrow>
   all_fields (p\<lparr>tasks := (tasks p)[i := (tasks p ! i)\<lparr>tfields := fs\<rparr>]\<rparr>) =
     concat (map tfields (take i (tasks p))) @ fs @ concat (map tfields (drop (Suc i) (tasks p)))"
  by (simp add: all_fields_def upd_conv_take_nth_drop)

lemma all_fields_split:
  "i < length (tasks p) \<Longrightarrow>
   all_fields p =
     concat (map tfields (take i (tasks p))) @ tfields (tasks p ! i) @ concat (map tfields (drop (Suc i) (tasks p)))"
  using all_fields_update [of i p "tfields (tasks p ! i)"] by (simp add: all_fields_def id_take_nth_drop [symmetric])

lemma find_index_less: "find_index P xs = Some i \<Longrightarrow> i < length xs"
  by (induction xs arbitrary: i) (auto split: if_splits)

lemma get_task_less: "get_task s = (Some i, s') \<Longrightarrow> i < length (tasks (project s))"
  by (auto simp add: get_task_def split: if_splits dest: find_index_less)

text \<open>The field table changes no reference, name or lock.\<close>

lemma shown_as_refl [simp]: "shown_as f f"
  by (simp add: shown_as_def)

lemma shown_as_refresh [simp]: "shown_as f (refresh_field f)"
  by (simp add: shown_as_def)

lemma shown_as_parts:
  assumes "shown_as f f'"
  shows "field_id f' = field_id f" "cond f' = cond f" "origin_task f' = origin_task f"
    "origin_field f' = origin_field f" "name f' = name f" "name_lock_reason f' = name_lock_reason f"
    "name_locked f' = name_locked f" "name_before_obj f' = name_before_obj f"
    "name_before_origin f' = name_before_origin f" "ftype f' = ftype f" "obj_type f' = obj_type f"
  using assms by (auto simp add: shown_as_def refresh_field_def split: if_splits)

lemma list_all2_shown_refl [simp]: "list_all2 shown_as fs fs"
  by (simp add: list_all2_same)

lemma list_all2_shown_refresh [simp]: "list_all2 shown_as fs (map refresh_field fs)"
  by (simp add: list_all2_map2 list_all2_same)

lemma refresh_shown_fields: "list_all2 shown_as (all_fields p) (all_fields (refresh_shown c p))"
proof (cases c)
  case None
  then show ?thesis by (simp add: refresh_shown_def)
next
  case (Some i)
  show ?thesis
  proof (cases "i < length (tasks p)")
    case True
    show ?thesis
      unfolding Some refresh_shown_def option.case refresh_task_def all_fields_update [OF True]
      by (subst all_fields_split [OF True]) (intro list_all2_appendI; simp)
  next
    case False
    then show ?thesis by (simp add: Some refresh_shown_def refresh_task_def list_update_beyond)
  qed
qed

lemma refresh_rows_fields: "list_all2 shown_as (all_fields (project s)) (all_fields (project (refresh_rows s)))"
  by (simp add: refresh_rows_project refresh_shown_fields)

lemma refresh_all_ui_fields:
  "list_all2 shown_as (all_fields (project s)) (all_fields (project (refresh_all_ui s)))"
  using refresh_rows_fields [of "refresh_task_combo s"] by (simp add: refresh_all_ui_def)

text \<open>The fields left by \<open>_delete_field\<close>, task by task, and by \<open>delete_task\<close>.\<close>

lemma delete_field_result:
  assumes "delete_field fid s = (Done, s')"
  shows "\<exists>i < length (tasks (project s)). \<exists>p4.
           get_task (push_undo s) = (Some i, snd (get_task (push_undo s))) \<and>
           all_fields p4 = map (cleanup_field {fid})
             (concat (map tfields (take i (tasks (project s)))) @
              filter (\<lambda>f. field_id f \<noteq> fid) (tfields (tasks (project s) ! i)) @
              concat (map tfields (drop (Suc i) (tasks (project s))))) \<and>
           list_all2 shown_as (all_fields p4) (all_fields (project s'))"
proof -
  from assms have ne: "tasks (project s) \<noteq> []" by (auto simp add: delete_field_def)
  obtain ct s2 where g: "get_task (push_undo s) = (ct, s2)" by (cases "get_task (push_undo s)")
  from assms ne g obtain i where ct: "ct = Some i"
    by (cases ct) (auto simp add: delete_field_def Let_def)
  have p2: "project s2 = project s" using get_task_project [of "push_undo s"] g by simp
  from get_task_less [of "push_undo s" i s2] g ct have il: "i < length (tasks (project s))" by simp
  let ?p3 = "map_fields (cleanup_field {fid}) (project s)"
  let ?p4 = "?p3\<lparr>tasks := (tasks ?p3)
       [i := (tasks ?p3 ! i)\<lparr>tfields := filter (\<lambda>f. field_id f \<noteq> fid) (tfields (tasks ?p3 ! i))\<rparr>]\<rparr>"
  let ?s4 = "s2\<lparr>project := ?p4\<rparr>"
  have il3: "i < length (tasks ?p3)" using il by (simp add: map_fields_def)
  have t3: "tfields (tasks ?p3 ! i) = map (cleanup_field {fid}) (tfields (tasks (project s) ! i))"
    using il by (simp add: map_fields_def)
  have ps': "s' = ?s4\<lparr>rows := rows ?s4 - 1\<rparr> \<or> s' = refresh_rows ?s4"
    using assms ne g ct p2 by (auto simp add: delete_field_def Let_def split: option.splits if_splits)
  have sh: "list_all2 shown_as (all_fields ?p4) (all_fields (project s'))"
    using ps' refresh_rows_fields [of ?s4] by auto
  have "all_fields ?p4 =
     concat (map tfields (take i (tasks ?p3))) @ filter (\<lambda>f. field_id f \<noteq> fid) (tfields (tasks ?p3 ! i))
       @ concat (map tfields (drop (Suc i) (tasks ?p3)))"
    using all_fields_update [OF il3, of "filter (\<lambda>f. field_id f \<noteq> fid) (tfields (tasks ?p3 ! i))"] by simp
  also have "\<dots> = map (cleanup_field {fid})
             (concat (map tfields (take i (tasks (project s)))) @
              filter (\<lambda>f. field_id f \<noteq> fid) (tfields (tasks (project s) ! i)) @
              concat (map tfields (drop (Suc i) (tasks (project s)))))"
    unfolding t3
    by (simp add: map_fields_def map_concat comp_def take_map drop_map filter_map)
  finally show ?thesis using il g ct sh by auto
qed

lemma delete_task_result:
  assumes "delete_task ti s = (Done, s')"
  shows "ti < length (tasks (project s)) \<and>
         (\<exists>p2. all_fields p2 = map (cleanup_field (set (map field_id (tfields (tasks (project s) ! ti)))))
              (concat (map tfields (filter (\<lambda>x. task_id x \<noteq> task_id (tasks (project s) ! ti)) (tasks (project s))))) \<and>
            list_all2 shown_as (all_fields p2) (all_fields (project s')))"
proof -
  from assms have il: "ti < length (tasks (project s))"
    by (auto simp add: delete_task_def split: if_splits)
  let ?t = "tasks (project s) ! ti"
  let ?D = "set (map field_id (tfields ?t))"
  let ?p2 = "(map_fields (cleanup_field ?D) (project s))
          \<lparr>tasks := filter (\<lambda>x. task_id x \<noteq> task_id ?t) (tasks (map_fields (cleanup_field ?D) (project s)))\<rparr>"
  obtain s2 where s2: "s' = refresh_all_ui s2" "project s2 = ?p2"
    using assms il by (auto simp add: delete_task_def Let_def cleanup_refs_eq split: if_splits)
  have "list_all2 shown_as (all_fields ?p2) (all_fields (project s'))"
    using refresh_all_ui_fields [of s2] s2 by simp
  moreover have "all_fields ?p2 = map (cleanup_field ?D)
           (concat (map tfields (filter (\<lambda>x. task_id x \<noteq> task_id ?t) (tasks (project s)))))"
    by (simp add: all_fields_def map_fields_def filter_map comp_def map_concat)
  ultimately show ?thesis using il by blast
qed

lemma cascade_from_fields:
  assumes "all_fields p2 = map (cleanup_field ids) fs" and "set fs \<subseteq> set (all_fields p)"
    and "list_all2 shown_as (all_fields p2) (all_fields p')"
  shows "cascade_done ids p p' \<and>
         (\<forall>f\<in>set fs. \<exists>f'\<in>set (all_fields p'). shown_as (cleanup_field ids f) f')"
proof -
  have img: "\<exists>f\<in>set fs. shown_as (cleanup_field ids f) f'" if "f' \<in> set (all_fields p')" for f'
  proof -
    from that obtain n where n: "n < length (all_fields p')" "all_fields p' ! n = f'"
      by (auto simp add: in_set_conv_nth)
    from assms(3) n have "n < length (all_fields p2)" "shown_as (all_fields p2 ! n) f'"
      by (auto simp add: list_all2_conv_all_nth)
    then have "n < length fs" "shown_as (cleanup_field ids (fs ! n)) f'"
      using assms(1) by simp_all
    then show ?thesis using nth_mem [of n fs] by blast
  qed
  have a: "refs_gone ids p'"
    unfolding refs_gone_def
  proof (intro ballI conjI allI impI)
    fix f' c assume "f' \<in> set (all_fields p')" "c \<in> set (cond f')"
    with img obtain f where "shown_as (cleanup_field ids f) f'" by blast
    with cleanup_field_clean [of ids f] \<open>c \<in> set (cond f')\<close>
    show "src_field c \<notin> ids" by (simp add: shown_as_parts)
  next
    fix f' x assume "f' \<in> set (all_fields p')" "origin_field f' = Some x"
    with img obtain f where "shown_as (cleanup_field ids f) f'" by blast
    with cleanup_field_clean [of ids f] \<open>origin_field f' = Some x\<close>
    show "x \<notin> ids" by (simp add: shown_as_parts)
  qed
  have b: "\<exists>f\<in>set (all_fields p). shown_as (cleanup_field ids f) f' \<and> field_id f' = field_id f \<and>
          ((\<exists>x\<in>ids. origin_field f = Some x) \<longrightarrow> link_cleared f f')"
    if "f' \<in> set (all_fields p')" for f'
  proof -
    from img [OF that] obtain f where f: "f \<in> set fs" "shown_as (cleanup_field ids f) f'" by blast
    note sp = shown_as_parts [OF f(2)]
    have "link_cleared f f'" if "\<exists>x\<in>ids. origin_field f = Some x"
    proof -
      from that obtain x where "x \<in> ids" "origin_field f = Some x" by blast
      from cleanup_field_unlinks [OF this(2) this(1)] show ?thesis
        by (simp add: link_cleared_def sp)
    qed
    with f assms(2) sp(1) show ?thesis by auto
  qed
  have c: "\<exists>f'\<in>set (all_fields p'). shown_as (cleanup_field ids f) f'" if "f \<in> set fs" for f
  proof -
    from that obtain n where n: "n < length fs" "fs ! n = f" by (auto simp add: in_set_conv_nth)
    then have "n < length (all_fields p2)" "all_fields p2 ! n = cleanup_field ids f"
      using assms(1) by simp_all
    with assms(3) have "n < length (all_fields p')" "shown_as (cleanup_field ids f) (all_fields p' ! n)"
      by (auto simp add: list_all2_conv_all_nth)
    then show ?thesis using nth_mem [of n "all_fields p'"] by blast
  qed
  from a b c show ?thesis unfolding cascade_done_def by blast
qed

subsection \<open>Deleting a field or a task (C1)\<close>

text \<open>
  C1, amended: after a field is deleted by \<open>_delete_field\<close>, or the fields of a task by
  \<open>delete_task\<close>, no remaining field has a visibility rule whose source is a deleted id
  and no remaining field's origin points at one; every remaining field is the cleaned form
  of a field of the project before, with the same id, as the field table shows it (an
  \<open>Informativo\<close> field it shows is read-only), and one whose origin pointed at a deleted
  field has the link cleared and, when its name was locked for that origin, is unlocked
  and gets its saved pre-link name back if that saved name is non-empty (it keeps its
  current name otherwise); a lock with another reason stays. The fields with another id
  (for \<open>delete_task\<close>: the fields of the tasks with another task id) all remain.
\<close>

theorem delete_cleans_references:
  "(delete_field fid s = (Done, s') \<longrightarrow>
      cascade_done {fid} (project s) (project s') \<and>
      (\<forall>f\<in>set (all_fields (project s)). field_id f \<noteq> fid \<longrightarrow>
          (\<exists>f'\<in>set (all_fields (project s')). shown_as (cleanup_field {fid} f) f'))) \<and>
   (delete_task ti s = (Done, s') \<longrightarrow>
      cascade_done (set (map field_id (tfields (tasks (project s) ! ti)))) (project s) (project s') \<and>
      (\<forall>t\<in>set (tasks (project s)). task_id t \<noteq> task_id (tasks (project s) ! ti) \<longrightarrow>
          (\<forall>f\<in>set (tfields t). \<exists>f'\<in>set (all_fields (project s')).
              shown_as (cleanup_field (set (map field_id (tfields (tasks (project s) ! ti)))) f) f')))"
proof (intro conjI impI)
  assume d: "delete_field fid s = (Done, s')"
  from delete_field_result [OF d] obtain i p4 where
    i: "i < length (tasks (project s))"
       "all_fields p4 = map (cleanup_field {fid})
             (concat (map tfields (take i (tasks (project s)))) @
              filter (\<lambda>f. field_id f \<noteq> fid) (tfields (tasks (project s) ! i)) @
              concat (map tfields (drop (Suc i) (tasks (project s)))))"
       "list_all2 shown_as (all_fields p4) (all_fields (project s'))"
    by blast
  let ?fs = "concat (map tfields (take i (tasks (project s)))) @
              filter (\<lambda>f. field_id f \<noteq> fid) (tfields (tasks (project s) ! i)) @
              concat (map tfields (drop (Suc i) (tasks (project s))))"
  note sp = all_fields_split [OF i(1)]
  have sub: "set ?fs \<subseteq> set (all_fields (project s))" unfolding sp by auto
  note r = cascade_from_fields [OF i(2) sub i(3)]
  from r show "cascade_done {fid} (project s) (project s')" by blast
  have "f \<in> set ?fs" if "f \<in> set (all_fields (project s))" "field_id f \<noteq> fid" for f
    using that unfolding sp by auto
  with r show "\<forall>f\<in>set (all_fields (project s)). field_id f \<noteq> fid \<longrightarrow>
          (\<exists>f'\<in>set (all_fields (project s')). shown_as (cleanup_field {fid} f) f')"
    by blast
next
  assume d: "delete_task ti s = (Done, s')"
  let ?t = "tasks (project s) ! ti"
  let ?D = "set (map field_id (tfields ?t))"
  let ?fs = "concat (map tfields (filter (\<lambda>x. task_id x \<noteq> task_id ?t) (tasks (project s))))"
  from delete_task_result [OF d] obtain p2 where
    r: "ti < length (tasks (project s))" "all_fields p2 = map (cleanup_field ?D) ?fs"
       "list_all2 shown_as (all_fields p2) (all_fields (project s'))"
    by blast
  have sub: "set ?fs \<subseteq> set (all_fields (project s))" by (auto simp add: all_fields_def)
  note c = cascade_from_fields [OF r(2) sub r(3)]
  from c show "cascade_done ?D (project s) (project s')" by blast
  have "f \<in> set ?fs" if "t \<in> set (tasks (project s))" "task_id t \<noteq> task_id ?t" "f \<in> set (tfields t)" for t f
    using that by auto
  with c show "\<forall>t\<in>set (tasks (project s)). task_id t \<noteq> task_id ?t \<longrightarrow>
          (\<forall>f\<in>set (tfields t). \<exists>f'\<in>set (all_fields (project s')). shown_as (cleanup_field ?D f) f')"
    by blast
qed

lemmas eval_model = push_undo_def serialize_project_def get_task_def UNDO_MAX_def Let_def
  valid_ref_def field_at_def update_field_at_def map_fields_def all_fields_def truthy_def
  ex_app_def new_field_def refresh_rows_def refresh_task_combo_def refresh_all_ui_def
  refresh_task_def refresh_field_def

lemma ex_linked_project:
  "project (ex_linked nm) =
     \<lparr>flow_name = ''Novo fluxo'',
      tasks = [\<lparr>task_id = ''t1'', task_name = ''Fase 1'', tfields = [(new_field ''a1'')\<lparr>name := ''Valor''\<rparr>]\<rparr>,
               \<lparr>task_id = ''t2'', task_name = ''Fase 2'',
                tfields = [(new_field ''b1'')\<lparr>name := ''Valor'', readonly := True,
                    origin_task := Some ''t1'', origin_field := Some ''a1'', name_locked := True,
                    name_lock_reason := ''origem'', name_before_origin := nm\<rparr>]\<rparr>],
      object_type = [], object_schema = []\<rparr> \<and>
   current_task_id (ex_linked nm) = Some ''t1''"
  by (simp add: ex_linked_def ex_two_tasks_def set_origin_def link_origin_def eval_model)

lemma ex_delete_field:
  "delete_field ''a1'' (ex_linked nm) = (Done, snd (delete_field ''a1'' (ex_linked nm))) \<and>
   tasks (project (snd (delete_field ''a1'' (ex_linked nm)))) =
     [\<lparr>task_id = ''t1'', task_name = ''Fase 1'', tfields = []\<rparr>,
      \<lparr>task_id = ''t2'', task_name = ''Fase 2'',
       tfields = [(new_field ''b1'')\<lparr>name := (if nm \<noteq> [] then nm else ''Valor''), readonly := True,
                    name_before_origin := nm\<rparr>]\<rparr>]"
  using ex_linked_project [of nm]
  by (simp add: delete_field_def cleanup_field_def unlink_origin_def eval_model)

lemma ex_delete_task:
  "delete_task 0 (ex_linked nm) = (Done, snd (delete_task 0 (ex_linked nm))) \<and>
   tasks (project (snd (delete_task 0 (ex_linked nm)))) =
     [\<lparr>task_id = ''t2'', task_name = ''Fase 2'',
       tfields = [(new_field ''b1'')\<lparr>name := (if nm \<noteq> [] then nm else ''Valor''), readonly := True,
                    name_before_origin := nm\<rparr>]\<rparr>]"
  using ex_linked_project [of nm]
  by (simp add: delete_task_def cleanup_refs_def cleanup_field_def unlink_origin_def eval_model)

text \<open>
  C1, as stated: a field whose name was locked for the deleted origin has its pre-link name
  restored. In \<open>ex_two_tasks []\<close> the field \<open>b1\<close> has the empty name; it is linked to
  \<open>a1\<close> (its name becomes \<open>Valor\<close>, the saved pre-link name is empty) and \<open>a1\<close> is
  deleted. The guard \<open>and f.name_before_origin\<close> skips the restoration: \<open>b1\<close> keeps the
  name \<open>Valor\<close>.
\<close>

theorem prelink_name_counterexample:
  "name (field_at (project (ex_two_tasks [])) 1 0) = [] \<and>
   fst (set_origin 1 0 ''Fase 1'' ''Valor'' True False (ex_two_tasks [])) = Done \<and>
   origin_field (field_at (project (ex_linked [])) 1 0) = Some ''a1'' \<and>
   name_lock_reason (field_at (project (ex_linked [])) 1 0) = ''origem'' \<and>
   name_before_origin (field_at (project (ex_linked [])) 1 0) = [] \<and>
   fst (delete_field ''a1'' (ex_linked [])) = Done \<and>
   map field_id (all_fields (project (snd (delete_field ''a1'' (ex_linked []))))) = [''b1''] \<and>
   name (field_at (project (snd (delete_field ''a1'' (ex_linked [])))) 1 0) = ''Valor'' \<and>
   \<not> name_restored {''a1''} (project (ex_linked [])) (project (snd (delete_field ''a1'' (ex_linked []))))"
proof -
  have a: "name (field_at (project (ex_two_tasks [])) 1 0) = []"
    by (simp add: ex_two_tasks_def eval_model)
  have b: "fst (set_origin 1 0 ''Fase 1'' ''Valor'' True False (ex_two_tasks [])) = Done"
    by (simp add: ex_two_tasks_def set_origin_def eval_model)
  note l = ex_linked_project [of "[]"]
  note d = ex_delete_field [of "[]"]
  have c: "origin_field (field_at (project (ex_linked [])) 1 0) = Some ''a1'' \<and>
   name_lock_reason (field_at (project (ex_linked [])) 1 0) = ''origem'' \<and>
   name_before_origin (field_at (project (ex_linked [])) 1 0) = []"
    using l by (simp add: field_at_def)
  have e: "fst (delete_field ''a1'' (ex_linked [])) = Done" using d by (metis fst_conv)
  have f: "map field_id (all_fields (project (snd (delete_field ''a1'' (ex_linked []))))) = [''b1''] \<and>
   name (field_at (project (snd (delete_field ''a1'' (ex_linked [])))) 1 0) = ''Valor''"
    using d by (simp add: all_fields_def field_at_def new_field_def)
  have g: "\<not> name_restored {''a1''} (project (ex_linked [])) (project (snd (delete_field ''a1'' (ex_linked []))))"
    using l d by (simp add: name_restored_def all_fields_def new_field_def)
  from a b c e f g show ?thesis by simp
qed

theorem delete_cleans_references_witness:
  "cascade_done {''a1''} (project (ex_linked ''Total''))
     (project (snd (delete_field ''a1'' (ex_linked ''Total'')))) \<and>
   name (field_at (project (snd (delete_field ''a1'' (ex_linked ''Total'')))) 1 0) = ''Total'' \<and>
   cascade_done {''a1''} (project (ex_linked ''Total''))
     (project (snd (delete_task 0 (ex_linked ''Total'')))) \<and>
   name (field_at (project (snd (delete_task 0 (ex_linked ''Total'')))) 0 0) = ''Total''"
proof -
  have df: "delete_field ''a1'' (ex_linked ''Total'') = (Done, snd (delete_field ''a1'' (ex_linked ''Total'')))"
    using ex_delete_field [of "''Total''"] by simp
  have dt: "delete_task 0 (ex_linked ''Total'') = (Done, snd (delete_task 0 (ex_linked ''Total'')))"
    using ex_delete_task [of "''Total''"] by simp
  have ids: "set (map field_id (tfields (tasks (project (ex_linked ''Total'')) ! 0))) = {''a1''}"
    using ex_linked_project [of "''Total''"] by (simp add: new_field_def)
  have n1: "name (field_at (project (snd (delete_field ''a1'' (ex_linked ''Total'')))) 1 0) = ''Total''"
    using ex_delete_field [of "''Total''"] by (simp add: field_at_def new_field_def)
  have n2: "name (field_at (project (snd (delete_task 0 (ex_linked ''Total'')))) 0 0) = ''Total''"
    using ex_delete_task [of "''Total''"] by (simp add: field_at_def new_field_def)
  from delete_cleans_references [of "''a1''" "ex_linked ''Total''" "snd (delete_field ''a1'' (ex_linked ''Total''))"
      0 ] df
  have c1: "cascade_done {''a1''} (project (ex_linked ''Total''))
     (project (snd (delete_field ''a1'' (ex_linked ''Total''))))" by blast
  from delete_cleans_references [of "''a1''" "ex_linked ''Total''" "snd (delete_task 0 (ex_linked ''Total''))"
      0 ] dt
  have c2: "cascade_done {''a1''} (project (ex_linked ''Total''))
     (project (snd (delete_task 0 (ex_linked ''Total''))))" unfolding ids by blast
  from c1 c2 n1 n2 show ?thesis by simp
qed


section \<open>Properties of the type change\<close>


lemma push_undo_current: "current_task_id (push_undo s) = current_task_id (snd (get_task s))"
  by (simp add: push_undo_def serialize_project_def Let_def split: prod.splits)

lemma get_task_push_undo: "fst (get_task (push_undo s)) = fst (get_task s)"
  using get_task_cong [of "push_undo s" "snd (get_task s)"] get_task_idem [of s]
  by (simp add: push_undo_current)

lemma field_at_update:
  "valid_ref p ti fi \<Longrightarrow> field_at (update_field_at ti fi g p) ti fi = g (field_at p ti fi)"
  by (simp add: valid_ref_def field_at_def update_field_at_def)

lemma valid_ref_update [simp]: "valid_ref (update_field_at ti fi g p) ti' fi' = valid_ref p ti' fi'"
  by (cases "ti = ti'") (auto simp add: valid_ref_def update_field_at_def)

lemma object_type_update [simp]: "object_type (update_field_at ti fi g p) = object_type p"
  by (simp add: update_field_at_def)

lemma field_at_map_fields:
  "valid_ref p ti fi \<Longrightarrow> field_at (map_fields g p) ti fi = g (field_at p ti fi)"
  by (simp add: valid_ref_def field_at_def map_fields_def)

lemma valid_ref_map_fields [simp]: "valid_ref (map_fields g p) ti fi = valid_ref p ti fi"
  by (auto simp add: valid_ref_def map_fields_def)

lemma valid_ref_refresh_shown [simp]: "valid_ref (refresh_shown c p) ti fi = valid_ref p ti fi"
proof (cases c)
  case None
  then show ?thesis by (simp add: refresh_shown_def)
next
  case (Some i)
  then show ?thesis
    by (cases "i = ti") (auto simp add: refresh_shown_def refresh_task_def valid_ref_def)
qed

lemma field_at_refresh_shown:
  assumes "valid_ref p ti fi"
  shows "shown_as (field_at p ti fi) (field_at (refresh_shown c p) ti fi)"
proof (cases c)
  case None
  then show ?thesis by (simp add: refresh_shown_def)
next
  case (Some i)
  then show ?thesis using assms
    by (cases "i = ti") (auto simp add: refresh_shown_def refresh_task_def valid_ref_def field_at_def)
qed

lemma dialog_ok_project:
  "project (object_type_dialog_ok nm s) =
     refresh_shown (fst (get_task (object_type_dialog_ok nm s)))
       (map_fields (force_object nm) ((project s)\<lparr>object_type := nm\<rparr>))"
proof -
  have "(\<lambda>f. if ftype f = ''Objeto''
              then f\<lparr>obj_type := nm, name := nm, name_lock_reason := ''objeto'', name_locked := True\<rparr>
              else f) = force_object nm"
    by (rule ext) (simp add: force_object_def)
  then show ?thesis
    by (simp add: object_type_dialog_ok_def Let_def refresh_rows_project refresh_rows_current)
qed

lemma finish_type_fst [simp]: "fst (finish_type ti fi prev new_type att s) = Done"
  by (simp add: finish_type_def Let_def)

lemma attachment_editor_field:
  "valid_ref (project s) ti fi \<Longrightarrow>
   field_at (project (attachment_editor ti fi att s)) ti fi =
     (case att of None \<Rightarrow> field_at (project s) ti fi
      | Some n \<Rightarrow> (field_at (project s) ti fi)\<lparr>field_note := n\<rparr>)"
  by (simp add: attachment_editor_def Let_def field_at_update split: option.splits)

lemma attachment_editor_object_type [simp]:
  "object_type (project (attachment_editor ti fi att s)) = object_type (project s)"
  by (simp add: attachment_editor_def Let_def split: option.splits)

text \<open>What the steps after the branches leave untouched.\<close>

lemma finish_type_field:
  assumes "valid_ref (project s) ti fi"
  shows "same_identity (field_at (project s) ti fi)
           (field_at (project (snd (finish_type ti fi prev new_type att s))) ti fi) \<and>
         object_type (project (snd (finish_type ti fi prev new_type att s))) = object_type (project s)"
proof -
  let ?s1 = "s\<lparr>project := update_field_at ti fi (after_type new_type) (project s)\<rparr>"
  have v1: "valid_ref (project ?s1) ti fi" using assms by simp
  have a: "same_identity (field_at (project s) ti fi) (field_at (project ?s1) ti fi)"
    using assms by (simp add: field_at_update after_type_def Let_def same_identity_def)
  have b: "same_identity (field_at (project ?s1) ti fi)
             (field_at (project (attachment_editor ti fi att ?s1)) ti fi)"
    using attachment_editor_field [OF v1, of att]
    by (cases att) (simp_all add: same_identity_def)
  from a b show ?thesis
    by (auto simp add: finish_type_def Let_def same_identity_def)
qed



lemma get_task_pair:
  "fst (get_task s) = Some i \<Longrightarrow> get_task (push_undo s) = (Some i, snd (get_task (push_undo s)))"
  using get_task_push_undo [of s] by (cases "get_task (push_undo s)") simp

lemma change_to_objeto_steps:
  assumes v: "valid_ref (project s) ti fi"
    and no: "\<not> has_origin (field_at (project s) ti fi)"
    and cur: "fst (get_task s) = Some ti"
  shows "change_to_objeto ti fi prev dlg att (push_undo s) =
     (let s2 = snd (get_task (push_undo s)) in
      if other_object (project s) ti fi then (Rejected ObjectTypeConflict, s2)
      else if object_type (project s) = [] \<and> (dlg = None \<or> py_strip (the dlg) = [])
      then (Rejected ObjectTypeMissing, s2)
      else (let s3 = (if object_type (project s) = []
                      then object_type_dialog_ok (py_strip (the dlg)) s2 else s2)
            in finish_type ti fi prev ''Objeto'' att
                 (s3\<lparr>project := update_field_at ti fi
                        (to_objeto (object_type (project s3))) (project s3)\<rparr>)))"
proof -
  obtain s2 where g: "get_task (push_undo s) = (Some ti, s2)"
    using get_task_push_undo [of s] cur by (cases "get_task (push_undo s)") simp
  have p2: "project s2 = project s" using get_task_project [of "push_undo s"] g by simp
  show ?thesis
    using no by (auto simp add: change_to_objeto_def Let_def g p2 has_origin_def other_object_def)
qed

lemma reject_origin:
  assumes "valid_ref (project s) ti fi" and "ftype (field_at (project s) ti fi) \<noteq> ''Objeto''"
    and "has_origin (field_at (project s) ti fi)"
  shows "fst (on_change_type ti fi ''Objeto'' dlg att s) = Rejected OriginIncompatible \<and>
         project (snd (on_change_type ti fi ''Objeto'' dlg att s)) = project s"
  using assms by (simp add: on_change_type_def change_to_objeto_def Let_def has_origin_def)

lemma reject_conflict:
  assumes "valid_ref (project s) ti fi" and "ftype (field_at (project s) ti fi) \<noteq> ''Objeto''"
    and "\<not> has_origin (field_at (project s) ti fi)" and "fst (get_task s) = Some ti"
    and "other_object (project s) ti fi"
  shows "fst (on_change_type ti fi ''Objeto'' dlg att s) = Rejected ObjectTypeConflict \<and>
         project (snd (on_change_type ti fi ''Objeto'' dlg att s)) = project s"
  using assms change_to_objeto_steps [OF assms(1,3,4)]
  by (simp add: on_change_type_def Let_def)

lemma reject_missing:
  assumes "valid_ref (project s) ti fi" and "ftype (field_at (project s) ti fi) \<noteq> ''Objeto''"
    and "\<not> has_origin (field_at (project s) ti fi)" and "fst (get_task s) = Some ti"
    and "\<not> other_object (project s) ti fi"
    and "object_type (project s) = []" and "dlg = None \<or> py_strip (the dlg) = []"
  shows "fst (on_change_type ti fi ''Objeto'' dlg att s) = Rejected ObjectTypeMissing \<and>
         project (snd (on_change_type ti fi ''Objeto'' dlg att s)) = project s"
  using assms change_to_objeto_steps [OF assms(1,3,4)]
  by (simp add: on_change_type_def Let_def)

lemma to_objeto_succeeds:
  assumes v: "valid_ref (project s) ti fi" and nt: "ftype (field_at (project s) ti fi) \<noteq> ''Objeto''"
    and no: "\<not> has_origin (field_at (project s) ti fi)" and cur: "fst (get_task s) = Some ti"
    and oo: "\<not> other_object (project s) ti fi"
    and nm: "object_type (project s) \<noteq> [] \<or> (\<exists>n. dlg = Some n \<and> py_strip n \<noteq> [])"
  shows "fst (on_change_type ti fi ''Objeto'' dlg att s) = Done \<and>
         object_locked (project (snd (on_change_type ti fi ''Objeto'' dlg att s)))
           (field_at (project (snd (on_change_type ti fi ''Objeto'' dlg att s))) ti fi) \<and>
         object_type (project (snd (on_change_type ti fi ''Objeto'' dlg att s))) =
           (if object_type (project s) \<noteq> [] then object_type (project s) else py_strip (the dlg)) \<and>
         name_before_obj (field_at (project (snd (on_change_type ti fi ''Objeto'' dlg att s))) ti fi) =
           (if name_lock_reason (field_at (project s) ti fi) \<noteq> ''objeto''
            then name (field_at (project s) ti fi) else name_before_obj (field_at (project s) ti fi))"
proof -
  let ?f = "field_at (project s) ti fi"
  let ?s2 = "snd (get_task (push_undo s))"
  let ?s3 = "if object_type (project s) = [] then object_type_dialog_ok (py_strip (the dlg)) ?s2 else ?s2"
  let ?ot = "if object_type (project s) \<noteq> [] then object_type (project s) else py_strip (the dlg)"
  let ?s4 = "?s3\<lparr>project := update_field_at ti fi (to_objeto (object_type (project ?s3))) (project ?s3)\<rparr>"
  have p2: "project ?s2 = project s" by simp
  have miss: "\<not> (object_type (project s) = [] \<and> (dlg = None \<or> py_strip (the dlg) = []))"
    using nm by auto
  have run: "on_change_type ti fi ''Objeto'' dlg att s = finish_type ti fi (ftype ?f) ''Objeto'' att ?s4"
  proof (cases "object_type (project s) = []")
    case True
    with nm obtain n where "dlg = Some n" "py_strip n \<noteq> []" by auto
    then show ?thesis
      using v nt oo True change_to_objeto_steps [OF v no cur, of "ftype ?f" dlg att]
      by (simp add: on_change_type_def Let_def)
  next
    case False
    then show ?thesis
      using v nt oo change_to_objeto_steps [OF v no cur, of "ftype ?f" dlg att]
      by (simp add: on_change_type_def Let_def)
  qed
  let ?f3 = "field_at (project ?s3) ti fi"
  have ot3: "object_type (project ?s3) = ?ot"
    by (simp add: dialog_ok_project map_fields_def)
  have otne: "?ot \<noteq> []" using nm by auto
  have v3: "valid_ref (project ?s3) ti fi" using v by (simp add: dialog_ok_project) (simp add: valid_ref_def)
  have "field_at (map_fields (force_object n) ((project s)\<lparr>object_type := n\<rparr>)) ti fi = ?f" for n
    using v nt by (simp add: field_at_def valid_ref_def map_fields_def force_object_def)
  moreover have "valid_ref (map_fields (force_object n) ((project s)\<lparr>object_type := n\<rparr>)) ti fi" for n
    using v by (simp add: valid_ref_def map_fields_def)
  ultimately have "shown_as ?f (field_at (refresh_shown c
      (map_fields (force_object n) ((project s)\<lparr>object_type := n\<rparr>))) ti fi)" for c n
    using field_at_refresh_shown [of "map_fields (force_object n) ((project s)\<lparr>object_type := n\<rparr>)" ti fi c]
    by simp
  then have f3: "shown_as ?f ?f3"
    by (simp add: dialog_ok_project)
  have v4: "valid_ref (project ?s4) ti fi" using v3 by simp
  have f4: "field_at (project ?s4) ti fi = to_objeto ?ot ?f3"
    using v3 ot3 by (simp add: field_at_update)
  have o4: "object_type (project ?s4) = ?ot" using ot3 by simp
  define g where "g = field_at (project ?s3) ti fi"
  define r where "r = field_at (project (snd (finish_type ti fi (ftype ?f) ''Objeto'' att ?s4))) ti fi"
  from finish_type_field [OF v4, of "ftype ?f" "''Objeto''" att]
  have fin: "same_identity (to_objeto ?ot g) r"
       "object_type (project (snd (finish_type ti fi (ftype ?f) ''Objeto'' att ?s4))) = ?ot"
    unfolding f4 o4 g_def r_def by simp_all
  note sp = shown_as_parts [OF f3, folded g_def]
  have "object_locked (project (snd (finish_type ti fi (ftype ?f) ''Objeto'' att ?s4))) r"
    using fin otne by (simp add: same_identity_def to_objeto_def object_locked_def)
  moreover have "name_before_obj r =
      (if name_lock_reason ?f \<noteq> ''objeto'' then name ?f else name_before_obj ?f)"
    using fin(1) sp by (simp add: same_identity_def to_objeto_def)
  ultimately show ?thesis
    unfolding run using fin(2) by (simp add: r_def)
qed

lemma from_objeto_restores:
  assumes v: "valid_ref (project s) ti fi" and t: "ftype (field_at (project s) ti fi) = ''Objeto''"
    and nt: "new_type \<noteq> ''Objeto''"
  shows "fst (on_change_type ti fi new_type dlg att s) = Done \<and>
         ftype (field_at (project (snd (on_change_type ti fi new_type dlg att s))) ti fi) = new_type \<and>
         obj_type (field_at (project (snd (on_change_type ti fi new_type dlg att s))) ti fi) = [] \<and>
         (name_lock_reason (field_at (project s) ti fi) = ''objeto'' \<longrightarrow>
            name (field_at (project (snd (on_change_type ti fi new_type dlg att s))) ti fi) =
              (if name_before_obj (field_at (project s) ti fi) \<noteq> []
               then name_before_obj (field_at (project s) ti fi) else name (field_at (project s) ti fi)) \<and>
            name_lock_reason (field_at (project (snd (on_change_type ti fi new_type dlg att s))) ti fi) = [] \<and>
            \<not> name_locked (field_at (project (snd (on_change_type ti fi new_type dlg att s))) ti fi))"
proof -
  let ?f = "field_at (project s) ti fi"
  let ?s1 = "push_undo s"
  let ?s4 = "?s1\<lparr>project := update_field_at ti fi (from_objeto new_type) (project ?s1)\<rparr>"
  have run: "on_change_type ti fi new_type dlg att s = finish_type ti fi ''Objeto'' new_type att ?s4"
    using v t nt by (simp add: on_change_type_def Let_def)
  have v4: "valid_ref (project ?s4) ti fi" using v by simp
  have f4: "field_at (project ?s4) ti fi = from_objeto new_type ?f"
    using v by (simp add: field_at_update)
  from finish_type_field [OF v4, of "''Objeto''" new_type att]
  have fin: "same_identity (from_objeto new_type ?f)
               (field_at (project (snd (finish_type ti fi ''Objeto'' new_type att ?s4))) ti fi)"
    unfolding f4 by simp
  show ?thesis
    unfolding run using fin
    by (simp add: same_identity_def from_objeto_def Let_def)
qed



subsection \<open>Retyping to and from the object type (C4)\<close>

text \<open>
  C4, amended: for a field of the project that is not object-typed, changing its type to
  \<open>Objeto\<close> is rejected with \<open>OriginIncompatible\<close> when the field has an origin link
  (this check comes first); with \<open>ObjectTypeConflict\<close> when it has none and the current
  task, which is the field's task, holds another object-typed field; and, when neither
  holds, is rejected when no global object-type name exists and none is supplied. On each
  rejection the project is as before (the history has received a snapshot). Otherwise it
  succeeds: the field is object-typed, its name and \<open>obj_type\<close> are the global
  object-type name (the supplied one when none existed), the name is locked with the
  object reason and the prior name is saved. Retyping an object-typed field away sets the
  new type, clears \<open>obj_type\<close> and, when the lock reason is the object reason, unlocks the
  name and restores the saved prior name if that saved name is non-empty (the name is
  kept otherwise).
\<close>

theorem change_type_object:
  assumes "valid_ref (project s) ti fi"
  shows
    "(ftype (field_at (project s) ti fi) \<noteq> ''Objeto'' \<and> has_origin (field_at (project s) ti fi) \<longrightarrow>
        fst (on_change_type ti fi ''Objeto'' dlg att s) = Rejected OriginIncompatible \<and>
        project (snd (on_change_type ti fi ''Objeto'' dlg att s)) = project s) \<and>
     (ftype (field_at (project s) ti fi) \<noteq> ''Objeto'' \<and> \<not> has_origin (field_at (project s) ti fi) \<and>
      fst (get_task s) = Some ti \<and> other_object (project s) ti fi \<longrightarrow>
        fst (on_change_type ti fi ''Objeto'' dlg att s) = Rejected ObjectTypeConflict \<and>
        project (snd (on_change_type ti fi ''Objeto'' dlg att s)) = project s) \<and>
     (ftype (field_at (project s) ti fi) \<noteq> ''Objeto'' \<and> \<not> has_origin (field_at (project s) ti fi) \<and>
      fst (get_task s) = Some ti \<and> \<not> other_object (project s) ti fi \<and>
      object_type (project s) = [] \<and> (dlg = None \<or> py_strip (the dlg) = []) \<longrightarrow>
        fst (on_change_type ti fi ''Objeto'' dlg att s) = Rejected ObjectTypeMissing \<and>
        project (snd (on_change_type ti fi ''Objeto'' dlg att s)) = project s) \<and>
     (ftype (field_at (project s) ti fi) \<noteq> ''Objeto'' \<and> \<not> has_origin (field_at (project s) ti fi) \<and>
      fst (get_task s) = Some ti \<and> \<not> other_object (project s) ti fi \<and>
      (object_type (project s) \<noteq> [] \<or> (\<exists>n. dlg = Some n \<and> py_strip n \<noteq> [])) \<longrightarrow>
        fst (on_change_type ti fi ''Objeto'' dlg att s) = Done \<and>
        object_locked (project (snd (on_change_type ti fi ''Objeto'' dlg att s)))
          (field_at (project (snd (on_change_type ti fi ''Objeto'' dlg att s))) ti fi) \<and>
        object_type (project (snd (on_change_type ti fi ''Objeto'' dlg att s))) =
          (if object_type (project s) \<noteq> [] then object_type (project s) else py_strip (the dlg)) \<and>
        name_before_obj (field_at (project (snd (on_change_type ti fi ''Objeto'' dlg att s))) ti fi) =
          (if name_lock_reason (field_at (project s) ti fi) \<noteq> ''objeto''
           then name (field_at (project s) ti fi) else name_before_obj (field_at (project s) ti fi))) \<and>
     (ftype (field_at (project s) ti fi) = ''Objeto'' \<and> new_type \<noteq> ''Objeto'' \<longrightarrow>
        fst (on_change_type ti fi new_type dlg att s) = Done \<and>
        ftype (field_at (project (snd (on_change_type ti fi new_type dlg att s))) ti fi) = new_type \<and>
        obj_type (field_at (project (snd (on_change_type ti fi new_type dlg att s))) ti fi) = [] \<and>
        (name_lock_reason (field_at (project s) ti fi) = ''objeto'' \<longrightarrow>
           name (field_at (project (snd (on_change_type ti fi new_type dlg att s))) ti fi) =
             (if name_before_obj (field_at (project s) ti fi) \<noteq> []
              then name_before_obj (field_at (project s) ti fi) else name (field_at (project s) ti fi)) \<and>
           name_lock_reason (field_at (project (snd (on_change_type ti fi new_type dlg att s))) ti fi) = [] \<and>
           \<not> name_locked (field_at (project (snd (on_change_type ti fi new_type dlg att s))) ti fi)))"
proof (intro conjI impI)
  assume "ftype (field_at (project s) ti fi) \<noteq> ''Objeto'' \<and> has_origin (field_at (project s) ti fi)"
  then show "fst (on_change_type ti fi ''Objeto'' dlg att s) = Rejected OriginIncompatible"
    "project (snd (on_change_type ti fi ''Objeto'' dlg att s)) = project s"
    using reject_origin [OF assms, of dlg att] by simp_all
next
  assume "ftype (field_at (project s) ti fi) \<noteq> ''Objeto'' \<and> \<not> has_origin (field_at (project s) ti fi) \<and>
      fst (get_task s) = Some ti \<and> other_object (project s) ti fi"
  then show "fst (on_change_type ti fi ''Objeto'' dlg att s) = Rejected ObjectTypeConflict"
    "project (snd (on_change_type ti fi ''Objeto'' dlg att s)) = project s"
    using reject_conflict [OF assms, of dlg att] by simp_all
next
  assume "ftype (field_at (project s) ti fi) \<noteq> ''Objeto'' \<and> \<not> has_origin (field_at (project s) ti fi) \<and>
      fst (get_task s) = Some ti \<and> \<not> other_object (project s) ti fi \<and>
      object_type (project s) = [] \<and> (dlg = None \<or> py_strip (the dlg) = [])"
  then show "fst (on_change_type ti fi ''Objeto'' dlg att s) = Rejected ObjectTypeMissing"
    "project (snd (on_change_type ti fi ''Objeto'' dlg att s)) = project s"
    using reject_missing [OF assms, of dlg att] by simp_all
next
  assume h: "ftype (field_at (project s) ti fi) \<noteq> ''Objeto'' \<and> \<not> has_origin (field_at (project s) ti fi) \<and>
      fst (get_task s) = Some ti \<and> \<not> other_object (project s) ti fi \<and>
      (object_type (project s) \<noteq> [] \<or> (\<exists>n. dlg = Some n \<and> py_strip n \<noteq> []))"
  from h have "ftype (field_at (project s) ti fi) \<noteq> ''Objeto''" "\<not> has_origin (field_at (project s) ti fi)"
    "fst (get_task s) = Some ti" "\<not> other_object (project s) ti fi"
    "object_type (project s) \<noteq> [] \<or> (\<exists>n. dlg = Some n \<and> py_strip n \<noteq> [])" by blast+
  note r = to_objeto_succeeds [OF assms this, of att]
  from r show "fst (on_change_type ti fi ''Objeto'' dlg att s) = Done" by blast
  from r show "object_locked (project (snd (on_change_type ti fi ''Objeto'' dlg att s)))
          (field_at (project (snd (on_change_type ti fi ''Objeto'' dlg att s))) ti fi)" by blast
  from r show "object_type (project (snd (on_change_type ti fi ''Objeto'' dlg att s))) =
          (if object_type (project s) \<noteq> [] then object_type (project s) else py_strip (the dlg))" by blast
  from r show "name_before_obj (field_at (project (snd (on_change_type ti fi ''Objeto'' dlg att s))) ti fi) =
          (if name_lock_reason (field_at (project s) ti fi) \<noteq> ''objeto''
           then name (field_at (project s) ti fi) else name_before_obj (field_at (project s) ti fi))" by blast
next
  assume h: "ftype (field_at (project s) ti fi) = ''Objeto'' \<and> new_type \<noteq> ''Objeto''"
  then have "ftype (field_at (project s) ti fi) = ''Objeto''" "new_type \<noteq> ''Objeto''" by blast+
  note r = from_objeto_restores [OF assms this, of dlg att]
  from r show "fst (on_change_type ti fi new_type dlg att s) = Done" by blast
  from r show "ftype (field_at (project (snd (on_change_type ti fi new_type dlg att s))) ti fi) = new_type" by blast
  from r show "obj_type (field_at (project (snd (on_change_type ti fi new_type dlg att s))) ti fi) = []" by blast
  {
    assume l: "name_lock_reason (field_at (project s) ti fi) = ''objeto''"
    from r l show "name (field_at (project (snd (on_change_type ti fi new_type dlg att s))) ti fi) =
             (if name_before_obj (field_at (project s) ti fi) \<noteq> []
              then name_before_obj (field_at (project s) ti fi) else name (field_at (project s) ti fi))" by blast
    from r l show "name_lock_reason (field_at (project (snd (on_change_type ti fi new_type dlg att s))) ti fi) = []" by blast
    from r l show "\<not> name_locked (field_at (project (snd (on_change_type ti fi new_type dlg att s))) ti fi)" by blast
  }
qed

lemmas eval_type = on_change_type_def change_to_objeto_def finish_type_def after_type_def
  refresh_rows_def refresh_task_def refresh_field_def
  to_objeto_def from_objeto_def LIST_FIELD_TYPES_def str_Lista_Varios_def

lemma ex_typed_project:
  "project (ex_typed nm) =
     \<lparr>flow_name = ''Novo fluxo'',
      tasks = [\<lparr>task_id = ''t1'', task_name = ''Fase 1'',
                tfields = [(new_field ''b1'')\<lparr>name := ''Contrato'', ftype := ''Objeto'',
                   name_locked := True, name_lock_reason := ''objeto'', name_before_obj := nm,
                   obj_type := ''Contrato''\<rparr>]\<rparr>],
      object_type = ''Contrato'', object_schema = []\<rparr> \<and>
   current_task_id (ex_typed nm) = Some ''t1''"
  by (simp add: ex_typed_def ex_plain_def eval_type eval_model)

lemma ex_retyped:
  "on_change_type 0 0 ''Texto'' None None (ex_typed nm) =
     (Done, snd (on_change_type 0 0 ''Texto'' None None (ex_typed nm))) \<and>
   tasks (project (snd (on_change_type 0 0 ''Texto'' None None (ex_typed nm)))) =
     [\<lparr>task_id = ''t1'', task_name = ''Fase 1'',
       tfields = [(new_field ''b1'')\<lparr>name := (if nm \<noteq> [] then nm else ''Contrato''),
                    name_before_obj := nm\<rparr>]\<rparr>]"
  by (simp add: ex_typed_project [THEN conjunct1] ex_typed_project [THEN conjunct2] eval_type eval_model)

text \<open>
  C4, as stated: retyping away from the object type restores the prior name. In
  \<open>ex_plain []\<close> the field has the empty name; it is retyped to \<open>Objeto\<close> (name
  \<open>Contrato\<close>, saved prior name empty) and back to \<open>Texto\<close>. The guard
  \<open>and f.name_before_obj\<close> skips the restoration: the field keeps the name \<open>Contrato\<close>.
\<close>

theorem prior_name_counterexample:
  "name (field_at (project (ex_plain [])) 0 0) = [] \<and>
   fst (on_change_type 0 0 ''Objeto'' None None (ex_plain [])) = Done \<and>
   name (field_at (project (ex_typed [])) 0 0) = ''Contrato'' \<and>
   name_lock_reason (field_at (project (ex_typed [])) 0 0) = ''objeto'' \<and>
   fst (on_change_type 0 0 ''Texto'' None None (ex_typed [])) = Done \<and>
   ftype (field_at (project (snd (on_change_type 0 0 ''Texto'' None None (ex_typed [])))) 0 0) = ''Texto'' \<and>
   name (field_at (project (snd (on_change_type 0 0 ''Texto'' None None (ex_typed [])))) 0 0) = ''Contrato''"
proof -
  have a: "name (field_at (project (ex_plain [])) 0 0) = []"
    by (simp add: ex_plain_def eval_model)
  have b: "fst (on_change_type 0 0 ''Objeto'' None None (ex_plain [])) = Done"
    by (simp add: ex_plain_def eval_type eval_model)
  have c: "name (field_at (project (ex_typed [])) 0 0) = ''Contrato'' \<and>
           name_lock_reason (field_at (project (ex_typed [])) 0 0) = ''objeto''"
    using ex_typed_project [of "[]"] by (simp add: field_at_def)
  have d: "fst (on_change_type 0 0 ''Texto'' None None (ex_typed [])) = Done"
    using ex_retyped [of "[]"] by (metis fst_conv)
  have e: "ftype (field_at (project (snd (on_change_type 0 0 ''Texto'' None None (ex_typed [])))) 0 0) = ''Texto'' \<and>
   name (field_at (project (snd (on_change_type 0 0 ''Texto'' None None (ex_typed [])))) 0 0) = ''Contrato''"
    using ex_retyped [of "[]"] by (simp add: field_at_def new_field_def)
  from a b c d e show ?thesis by simp
qed

theorem change_type_object_witness:
  "fst (on_change_type 0 0 ''Objeto'' None None (ex_plain ''Total'')) = Done \<and>
   object_locked (project (ex_typed ''Total'')) (field_at (project (ex_typed ''Total'')) 0 0) \<and>
   name (field_at (project (snd (on_change_type 0 0 ''Texto'' None None (ex_typed ''Total'')))) 0 0) = ''Total'' \<and>
   \<not> name_locked (field_at (project (snd (on_change_type 0 0 ''Texto'' None None (ex_typed ''Total'')))) 0 0) \<and>
   fst (on_change_type 1 0 ''Objeto'' None None (ex_linked ''Total'')) = Rejected OriginIncompatible \<and>
   fst (on_change_type 0 1 ''Objeto'' None None ex_conflict) = Rejected ObjectTypeConflict \<and>
   fst (on_change_type 0 0 ''Objeto'' None None (ex_two_tasks ''Total'')) = Rejected ObjectTypeMissing \<and>
   project (snd (on_change_type 0 0 ''Objeto'' None None (ex_two_tasks ''Total''))) =
     project (ex_two_tasks ''Total'')"
proof -
  have v1: "valid_ref (project (ex_plain ''Total'')) 0 0" by (simp add: ex_plain_def eval_model)
  have h1: "ftype (field_at (project (ex_plain ''Total'')) 0 0) \<noteq> ''Objeto'' \<and>
     \<not> has_origin (field_at (project (ex_plain ''Total'')) 0 0) \<and>
     fst (get_task (ex_plain ''Total'')) = Some 0 \<and> \<not> other_object (project (ex_plain ''Total'')) 0 0 \<and>
     (object_type (project (ex_plain ''Total'')) \<noteq> [] \<or> (\<exists>n. None = Some n \<and> py_strip n \<noteq> []))"
    by (simp add: ex_plain_def has_origin_def other_object_def eval_model)
  have v2: "valid_ref (project (ex_typed ''Total'')) 0 0"
    using ex_typed_project [of "''Total''"] by (simp add: valid_ref_def)
  have h2: "ftype (field_at (project (ex_typed ''Total'')) 0 0) = ''Objeto'' \<and> ''Texto'' \<noteq> ''Objeto''"
    "name_lock_reason (field_at (project (ex_typed ''Total'')) 0 0) = ''objeto''"
    "name_before_obj (field_at (project (ex_typed ''Total'')) 0 0) = ''Total''"
    using ex_typed_project [of "''Total''"] by (simp_all add: field_at_def)
  have v3: "valid_ref (project (ex_linked ''Total'')) 1 0"
    using ex_linked_project [of "''Total''"] by (simp add: valid_ref_def)
  have h3: "ftype (field_at (project (ex_linked ''Total'')) 1 0) \<noteq> ''Objeto'' \<and>
            has_origin (field_at (project (ex_linked ''Total'')) 1 0)"
    using ex_linked_project [of "''Total''"] by (simp add: field_at_def has_origin_def truthy_def new_field_def)
  have v4: "valid_ref (project ex_conflict) 0 1"
    by (simp add: ex_conflict_def eval_model)
  have h4: "ftype (field_at (project ex_conflict) 0 1) \<noteq> ''Objeto'' \<and>
     \<not> has_origin (field_at (project ex_conflict) 0 1) \<and>
     fst (get_task ex_conflict) = Some 0 \<and> other_object (project ex_conflict) 0 1"
    by (simp add: ex_conflict_def ex_object_field_def has_origin_def other_object_def eval_model)
  have v5: "valid_ref (project (ex_two_tasks ''Total'')) 0 0"
    by (simp add: ex_two_tasks_def eval_model)
  have h5: "ftype (field_at (project (ex_two_tasks ''Total'')) 0 0) \<noteq> ''Objeto'' \<and>
     \<not> has_origin (field_at (project (ex_two_tasks ''Total'')) 0 0) \<and>
     fst (get_task (ex_two_tasks ''Total'')) = Some 0 \<and>
     \<not> other_object (project (ex_two_tasks ''Total'')) 0 0 \<and>
     object_type (project (ex_two_tasks ''Total'')) = [] \<and> (None = (None :: string option) \<or> py_strip (the None) = [])"
    by (simp add: ex_two_tasks_def has_origin_def other_object_def eval_model)
  note t1 = change_type_object [OF v1, of None None "''Texto''"]
  note t2 = change_type_object [OF v2, of None None "''Texto''"]
  note t3 = change_type_object [OF v3, of None None "''Texto''"]
  note t4 = change_type_object [OF v4, of None None "''Texto''"]
  note t5 = change_type_object [OF v5, of None None "''Texto''"]
  have a: "fst (on_change_type 0 0 ''Objeto'' None None (ex_plain ''Total'')) = Done \<and>
           object_locked (project (ex_typed ''Total'')) (field_at (project (ex_typed ''Total'')) 0 0)"
    using t1 h1 unfolding ex_typed_def by blast
  have b: "name (field_at (project (snd (on_change_type 0 0 ''Texto'' None None (ex_typed ''Total'')))) 0 0) = ''Total'' \<and>
   \<not> name_locked (field_at (project (snd (on_change_type 0 0 ''Texto'' None None (ex_typed ''Total'')))) 0 0)"
    using t2 h2 by simp
  have c: "fst (on_change_type 1 0 ''Objeto'' None None (ex_linked ''Total'')) = Rejected OriginIncompatible"
    using t3 h3 by blast
  have d: "fst (on_change_type 0 1 ''Objeto'' None None ex_conflict) = Rejected ObjectTypeConflict"
    using t4 h4 by blast
  have e: "fst (on_change_type 0 0 ''Objeto'' None None (ex_two_tasks ''Total'')) = Rejected ObjectTypeMissing \<and>
   project (snd (on_change_type 0 0 ''Objeto'' None None (ex_two_tasks ''Total''))) =
     project (ex_two_tasks ''Total'')"
    using t5 h5 by blast
  from a b c d e show ?thesis by simp
qed


section \<open>Properties of the origin link\<close>


lemma strip_Fase: "py_strip ''Fase 1'' = ''Fase 1''"
  by (simp add: py_strip_def py_isspace_def)

lemma strip_Contrato: "py_strip ''Contrato'' = ''Contrato''"
  by (simp add: py_strip_def py_isspace_def)

lemma ex_s1_state:
  "project ex_s1 = \<lparr>flow_name = ''Novo fluxo'',
      tasks = [\<lparr>task_id = ''t1'', task_name = ''Fase 1'', tfields = []\<rparr>],
      object_type = [], object_schema = []\<rparr>"
  "current_task_id ex_s1 = Some ''t1''"
  by (simp_all add: ex_s1_def add_task_def init_app_def strip_Fase eval_model)

lemma ex_s2_state:
  "project ex_s2 = \<lparr>flow_name = ''Novo fluxo'',
      tasks = [\<lparr>task_id = ''t1'', task_name = ''Fase 1'', tfields = [new_field ''o1'']\<rparr>],
      object_type = [], object_schema = []\<rparr>"
  "current_task_id ex_s2 = Some ''t1''"
  by (simp_all add: ex_s2_def add_field_def ex_s1_state push_undo_def serialize_project_def
      get_task_def UNDO_MAX_def Let_def)

lemma ex_s3_state:
  "project ex_s3 = \<lparr>flow_name = ''Novo fluxo'',
      tasks = [\<lparr>task_id = ''t1'', task_name = ''Fase 1'',
                tfields = [(new_field ''o1'')\<lparr>name := ''Contrato'', ftype := ''Objeto'',
                   name_locked := True, name_lock_reason := ''objeto'',
                   name_before_obj := ''Novo campo'', obj_type := ''Contrato''\<rparr>]\<rparr>],
      object_type = ''Contrato'', object_schema = []\<rparr>"
  "current_task_id ex_s3 = Some ''t1''"
  by (simp_all add: ex_s3_def ex_s2_state eval_type object_type_dialog_ok_def strip_Contrato
      push_undo_def serialize_project_def get_task_def UNDO_MAX_def Let_def
      valid_ref_def field_at_def update_field_at_def map_fields_def truthy_def new_field_def)

lemma ex_s4_state:
  "project ex_s4 = \<lparr>flow_name = ''Novo fluxo'',
      tasks = [\<lparr>task_id = ''t1'', task_name = ''Fase 1'',
                tfields = [(new_field ''o1'')\<lparr>name := ''Contrato'', ftype := ''Objeto'',
                   name_locked := True, name_lock_reason := ''objeto'',
                   name_before_obj := ''Novo campo'', obj_type := ''Contrato''\<rparr>,
                   new_field ''b1'']\<rparr>],
      object_type = ''Contrato'', object_schema = []\<rparr>"
  "current_task_id ex_s4 = Some ''t1''"
  by (simp_all add: ex_s4_def add_field_def ex_s3_state push_undo_def serialize_project_def
      get_task_def UNDO_MAX_def Let_def)

subsection \<open>Origin link and object type together (C5)\<close>

text \<open>
  C5 at the failing input: from the initial state a task is added, a field \<open>o1\<close> is
  added and retyped to \<open>Objeto\<close> (object type \<open>Contrato\<close>), a second field \<open>b1\<close> of
  type \<open>Texto\<close> is added, and the origin picker links \<open>b1\<close> to \<open>o1\<close>. The picker
  tests the type of the target alone and then copies the type of the origin: \<open>b1\<close> ends
  with the object type and an origin link.
\<close>

theorem origin_on_object_failing_input:
  "fst (add_task ''Fase 1'' ''t1'' init_app) = Done \<and> fst (add_field ''o1'' ex_s1) = Done \<and>
   fst (on_change_type 0 0 ''Objeto'' (Some ''Contrato'') None ex_s2) = Done \<and>
   fst (add_field ''b1'' ex_s3) = Done \<and>
   ftype (field_at (project ex_s4) 0 1) = ''Texto'' \<and>
   fst (set_origin 0 1 ''Fase 1'' ''Contrato'' True False ex_s4) = Done \<and>
   ftype (field_at (project ex_s5) 0 1) = ''Objeto'' \<and>
   origin_task (field_at (project ex_s5) 0 1) = Some ''t1'' \<and>
   origin_field (field_at (project ex_s5) 0 1) = Some ''o1'' \<and>
   name_lock_reason (field_at (project ex_s5) 0 1) = ''origem''"
proof -
  have a: "fst (add_task ''Fase 1'' ''t1'' init_app) = Done"
    by (simp add: add_task_def strip_Fase Let_def)
  have b: "fst (add_field ''o1'' ex_s1) = Done"
    by (simp add: add_field_def ex_s1_state push_undo_def serialize_project_def get_task_def Let_def)
  have c: "fst (on_change_type 0 0 ''Objeto'' (Some ''Contrato'') None ex_s2) = Done"
    by (simp add: ex_s2_state eval_type strip_Contrato
      push_undo_def serialize_project_def get_task_def UNDO_MAX_def Let_def
      valid_ref_def field_at_def truthy_def new_field_def)
  have d: "fst (add_field ''b1'' ex_s3) = Done"
    by (simp add: add_field_def ex_s3_state push_undo_def serialize_project_def get_task_def Let_def)
  have e: "ftype (field_at (project ex_s4) 0 1) = ''Texto''"
    by (simp add: ex_s4_state field_at_def new_field_def)
  have f: "fst (set_origin 0 1 ''Fase 1'' ''Contrato'' True False ex_s4) = Done"
    by (simp add: set_origin_def ex_s4_state valid_ref_def field_at_def truthy_def new_field_def Let_def)
  have g: "ftype (field_at (project ex_s5) 0 1) = ''Objeto'' \<and>
   origin_task (field_at (project ex_s5) 0 1) = Some ''t1'' \<and>
   origin_field (field_at (project ex_s5) 0 1) = Some ''o1'' \<and>
   name_lock_reason (field_at (project ex_s5) 0 1) = ''origem''"
    by (simp add: ex_s5_def set_origin_def link_origin_def ex_s4_state valid_ref_def field_at_def
        update_field_at_def truthy_def new_field_def Let_def)
  from a b c d e f g show ?thesis by simp
qed

theorem origin_on_object_failing_input_witness:
  "ftype (field_at (project ex_s5) 0 1) = ''Objeto'' \<and>
   origin_field (field_at (project ex_s5) 0 1) = Some ''o1''"
  using origin_on_object_failing_input by simp

text \<open>What a successful link writes, and when the picker refuses.\<close>

lemma set_origin_on_object:
  "valid_ref (project s) ti fi \<Longrightarrow> ftype (field_at (project s) ti fi) = ''Objeto'' \<Longrightarrow>
   set_origin ti fi sel_t sel_f ro rq s = (Rejected OriginOnObject, s)"
  by (simp add: set_origin_def)

lemma set_origin_links:
  assumes "valid_ref (project s) ti fi" and "set_origin ti fi sel_t sel_f ro rq s = (Done, s')"
    and "sel_f \<noteq> []" and "sel_f \<noteq> ''-''"
    and "truthy (map_option task_id (find (\<lambda>t. task_name t = sel_t) (tasks (project s))))"
  shows "\<exists>t origin. t \<in> set (tasks (project s)) \<and> origin \<in> set (tfields t) \<and> name origin = sel_f \<and>
           field_at (project s') ti fi =
             link_origin (task_id t) origin ro rq (field_at (project s) ti fi)"
proof -
  let ?tid = "map_option task_id (find (\<lambda>t. task_name t = sel_t) (tasks (project s)))"
  from assms(5) obtain tid where tid: "?tid = Some tid" by (auto simp add: truthy_def)
  from assms have nt: "ftype (field_at (project s) ti fi) \<noteq> ''Objeto''"
    by (auto simp add: set_origin_def split: if_splits)
  obtain t where t: "find (\<lambda>t. Some (task_id t) = ?tid) (tasks (project s)) = Some t"
    using assms nt by (cases "find (\<lambda>t. Some (task_id t) = ?tid) (tasks (project s))")
      (auto simp add: set_origin_def Let_def)
  obtain origin where o: "find (\<lambda>fld. name fld = sel_f) (tfields t) = Some origin"
    using assms nt t by (cases "find (\<lambda>fld. name fld = sel_f) (tfields t)")
      (auto simp add: set_origin_def Let_def)
  from t have tin: "t \<in> set (tasks (project s))" "task_id t = tid"
    using tid by (auto simp add: find_Some_iff)
  from o have oin: "origin \<in> set (tfields t)" "name origin = sel_f"
    by (auto simp add: find_Some_iff)
  have "s' = (push_undo s)\<lparr>project := update_field_at ti fi
                 (link_origin (the ?tid) origin ro rq) (project (push_undo s))\<rparr>"
    using assms nt t o by (simp add: set_origin_def Let_def)
  then have "field_at (project s') ti fi = link_origin tid origin ro rq (field_at (project s) ti fi)"
    using assms(1) tid by (simp add: field_at_update)
  with tin oin show ?thesis by blast
qed

section \<open>Properties of undo and redo\<close>



















subsection \<open>Undo and redo after an operation (C2)\<close>




end
